theory Spec2Isabelle
  imports Main "HOL-Library.Word"
begin

unbundle bit_operations_syntax

section \<open>The console interceptor of RuntimeTargetConsole.cpp\<close>

text \<open>
  This theory embeds \<^verbatim>\<open>RuntimeTarget::installConsoleHandler\<close>
  (jsinspector-modern/RuntimeTargetConsole.cpp): the per-installation \<open>ConsoleState\<close>,
  the bodies of the nineteen installed console methods, the wrapper that reaches the
  delegate (\<open>delegateExecutorSync\<close>) and the wrapper that forwards a call to the console
  that was there before (\<open>forwardToOriginalConsole\<close>).

  What the file consumes from outside is made explicit:
  \<^item> the JavaScript engine behind \<open>jsi::Runtime\<close> is an abstract state \<open>'rt\<close>; the JSI
    operations the file calls on it are the fields of the record \<open>jsi\<close>. Each may run
    script code, so each returns a new runtime state, and each may throw
    (\<open>jsi::JSError\<close>), which is the \<open>Inl\<close> branch of its result;
  \<^item> of the C++ standard library, \<open>double\<close> subtraction, \<open>std::to_string(double)\<close> and
    the state in which a move leaves a \<open>std::function\<close> are fields of the same record;
  \<^item> \<open>getTimestampMs()\<close> reads the system clock: the reading is an argument of the call;
  \<^item> the delegate is the list of messages it has received through
    \<open>addConsoleMessage\<close>; the owner's executor is the number of tasks submitted to it.
  Script code run by a JSI operation acts on \<open>'rt\<close> only: it is taken not to call back
  into the installed console while a console call is in progress.
\<close>

subsection \<open>Values\<close>

text \<open>A \<open>double\<close> is its IEEE 754 binary64 bit pattern.\<close>

type_synonym double = "64 word"

text \<open>\<open>m == 0\<close> on a double holds for \<open>+0.0\<close> and \<open>-0.0\<close>: every bit but the sign is clear.\<close>

definition double_eq_zero :: "double \<Rightarrow> bool" where
  "double_eq_zero m = (m AND 0x7FFFFFFFFFFFFFFF = 0)"

text \<open>\<open>std::isnan\<close>: the exponent field is all ones and the fraction is not zero.\<close>

definition std_isnan :: "double \<Rightarrow> bool" where
  "std_isnan m =
     (m AND 0x7FF0000000000000 = 0x7FF0000000000000 \<and> m AND 0x000FFFFFFFFFFFFF \<noteq> 0)"

type_synonym objref = nat

text \<open>
  Modelled from the spec: \<open>jsi::Value\<close> is declared outside this file. Its kinds are the
  seven that the spec's TruthinessEvaluator lists and that \<open>toBoolean\<close> tells apart (and
  asserts to be all there are). Objects and symbols are handles into the runtime.
\<close>

datatype jsvalue =
    JSUndefined
  | JSNull
  | JSBool bool
  | JSNumber double
  | JSSymbol nat
  | JSString string
  | JSObject objref

text \<open>
  What a host function can throw: a \<open>jsi::JSError\<close>, carrying the script value that was
  thrown, or the \<open>std::bad_function_call\<close> of calling an empty \<open>std::function\<close>.
\<close>

datatype thrown = JSError jsvalue | bad_function_call

text \<open>
  Modelled from the spec: the enum \<open>ConsoleAPIType\<close> is declared outside this file. Its
  values are the sixteen kinds of the spec's ConsoleMessageKind, under the names the
  file uses.
\<close>

datatype ConsoleAPIType =
    kClear | kDebug | kDir | kDirXML | kError | kStartGroup | kStartGroupCollapsed
  | kEndGroup | kInfo | kLog | kTable | kTrace | kWarning | kCount | kTimeEnd | kAssert

text \<open>
  Modelled from the spec: the struct of a console message is declared outside this
  file. It is the aggregate \<open>{timestampMs, type, args}\<close> that the bodies hand to
  \<open>addConsoleMessage\<close>, with the three fields of the spec's ConsoleMessage.
\<close>

record ConsoleMessage =
  msgTimestamp :: double
  msgType :: ConsoleAPIType
  msgArgs :: "jsvalue list"

subsection \<open>ConsoleState\<close>

text \<open>
  \<open>countMap\<close> holds C++ \<open>int\<close>s: 32-bit two's complement, read with \<open>sint\<close>. The increment
  \<open>it->second++\<close> is word addition, which wraps at \<open>INT_MAX\<close> as the targets' hardware
  does (the C++ standard leaves signed overflow undefined).
\<close>

record ConsoleState =
  countMap :: "string \<rightharpoonup> 32 word"
  timerTable :: "string \<rightharpoonup> double"

subsection \<open>What the file consumes from JSI and the standard library\<close>

record 'rt jsi =
  Value_toString :: "jsvalue \<Rightarrow> 'rt \<Rightarrow> (thrown + string) \<times> 'rt"
    \<comment> \<open>\<open>v.toString(runtime).utf8(runtime)\<close>\<close>
  Object_getProperty :: "objref \<Rightarrow> string \<Rightarrow> 'rt \<Rightarrow> (thrown + jsvalue) \<times> 'rt"
    \<comment> \<open>\<open>obj.getProperty(runtime, name)\<close>\<close>
  Object_isFunction :: "objref \<Rightarrow> 'rt \<Rightarrow> bool"
    \<comment> \<open>\<open>obj.isFunction(runtime)\<close>\<close>
  Function_callWithThis ::
    "objref \<Rightarrow> objref \<Rightarrow> jsvalue list \<Rightarrow> 'rt \<Rightarrow> (thrown + jsvalue) \<times> 'rt"
    \<comment> \<open>\<open>func.callWithThis(runtime, thisObj, args, count)\<close>\<close>
  double_minus :: "double \<Rightarrow> double \<Rightarrow> double"
    \<comment> \<open>\<open>a - b\<close> on doubles\<close>
  to_string_double :: "double \<Rightarrow> string"
    \<comment> \<open>\<open>std::to_string(double)\<close>\<close>
  moved_from_holds_target :: bool
    \<comment> \<open>whether a \<open>std::function\<close> that was moved from still holds its target\<close>

text \<open>\<open>std::to_string(int)\<close>: the decimal digits, with a minus sign when negative.\<close>

fun decimal_digits :: "nat \<Rightarrow> string" where
  "decimal_digits n =
     (if n < 10 then [''0123456789'' ! n]
      else decimal_digits (n div 10) @ [''0123456789'' ! (n mod 10)])"

definition to_string_int :: "int \<Rightarrow> string" where
  "to_string_int i =
     (if i < 0 then CHR ''-'' # decimal_digits (nat (- i)) else decimal_digits (nat i))"

subsection \<open>The world a console call runs in\<close>

record 'rt world =
  runtime :: 'rt
    \<comment> \<open>the \<open>jsi::Runtime\<close>\<close>
  consoleState :: ConsoleState
    \<comment> \<open>\<open>*state\<close>, shared by every installed method\<close>
  targetAlive :: bool
    \<comment> \<open>whether \<open>selfWeak.lock()\<close> yields the RuntimeTarget\<close>
  delegateMessages :: "ConsoleMessage list"
    \<comment> \<open>what \<open>addConsoleMessage\<close> has received, oldest first\<close>
  executorTasks :: nat
    \<comment> \<open>tasks holding the strong reference that were submitted to \<open>selfExecutor\<close>\<close>
  jsThreadReleases :: nat
    \<comment> \<open>strong references dropped on the JS thread, by a scope that was left while it
        still held one\<close>
  movedFrom :: "string set"
    \<comment> \<open>the installed methods whose closure has handed its \<open>body\<close> on with \<open>std::move\<close>\<close>

text \<open>
  Modelled from the spec: the delegate is outside this file. Its
  \<open>addConsoleMessage(ConsoleMessage) -> void\<close> is the sink of the messages: it records the
  message.
\<close>

definition addConsoleMessage :: "ConsoleMessage \<Rightarrow> 'rt world \<Rightarrow> 'rt world" where
  "addConsoleMessage msg w = w\<lparr>delegateMessages := delegateMessages w @ [msg]\<rparr>"

text \<open>
  A method body: the \<open>std::function\<close> given to \<open>installConsoleMethod\<close>. It gets the call's
  arguments and the timestamp; the runtime, the delegate and the state are in the world.
  It returns nothing, or throws.
\<close>

type_synonym 'rt body = "jsvalue list \<Rightarrow> double \<Rightarrow> 'rt world \<Rightarrow> (thrown + unit) \<times> 'rt world"

text \<open>
  A host function as script sees it: arguments and the clock reading of this call in,
  a value or an exception out. The \<open>thisVal\<close> parameter is left out: no installed
  function reads it.
\<close>

type_synonym 'rt hostfn = "jsvalue list \<Rightarrow> double \<Rightarrow> 'rt world \<Rightarrow> (thrown + jsvalue) \<times> 'rt world"

subsection \<open>toBoolean\<close>

fun toBoolean :: "jsvalue \<Rightarrow> bool" where
  "toBoolean JSUndefined = False"
| "toBoolean JSNull = False"
| "toBoolean (JSBool b) = b"
| "toBoolean (JSNumber m) = (\<not> double_eq_zero m \<and> \<not> std_isnan m)"
| "toBoolean (JSSymbol _) = True"
| "toBoolean (JSObject _) = True"
| "toBoolean (JSString s) = (s \<noteq> [])"

subsection \<open>The label of count, countReset, time, timeEnd and timeLog\<close>

text \<open>
  The five bodies open with the same lines:
  \<^verbatim>\<open>std::string label = "default";
  if (count > 0 && !args[0].isUndefined()) { label = args[0].toString(runtime).utf8(runtime); }\<close>
\<close>

definition resolve_label :: "'rt jsi \<Rightarrow> jsvalue list \<Rightarrow> 'rt \<Rightarrow> (thrown + string) \<times> 'rt" where
  "resolve_label J args rt =
     (case args of
        [] \<Rightarrow> (Inr ''default'', rt)
      | a # _ \<Rightarrow> if a \<noteq> JSUndefined then Value_toString J a rt else (Inr ''default'', rt))"

subsection \<open>The method bodies\<close>

definition count_body :: "'rt jsi \<Rightarrow> 'rt body" where
  "count_body J args timestampMs w =
     (case resolve_label J args (runtime w) of
        (Inl e, rt) \<Rightarrow> (Inl e, w\<lparr>runtime := rt\<rparr>)
      | (Inr label, rt) \<Rightarrow>
          let st = consoleState w;
              n = (case countMap st label of None \<Rightarrow> 1 | Some c \<Rightarrow> c + 1);
              st' = st\<lparr>countMap := (countMap st)(label \<mapsto> n)\<rparr>;
              vec = [JSString (label @ '': '' @ to_string_int (sint n))]
          in (Inr (),
              addConsoleMessage
                \<lparr>msgTimestamp = timestampMs, msgType = kCount, msgArgs = vec\<rparr>
                (w\<lparr>runtime := rt, consoleState := st'\<rparr>)))"

definition countReset_body :: "'rt jsi \<Rightarrow> 'rt body" where
  "countReset_body J args timestampMs w =
     (case resolve_label J args (runtime w) of
        (Inl e, rt) \<Rightarrow> (Inl e, w\<lparr>runtime := rt\<rparr>)
      | (Inr label, rt) \<Rightarrow>
          let st = consoleState w in
          (case countMap st label of
             None \<Rightarrow>
               (Inr (),
                addConsoleMessage
                  \<lparr>msgTimestamp = timestampMs, msgType = kWarning,
                   msgArgs = [JSString (''Count for '' @ [CHR 0x27] @ label @ [CHR 0x27] @ '' does not exist'')]\<rparr>
                  (w\<lparr>runtime := rt\<rparr>))
           | Some _ \<Rightarrow>
               (Inr (), w\<lparr>runtime := rt, consoleState := st\<lparr>countMap := (countMap st)(label \<mapsto> 0)\<rparr>\<rparr>)))"

definition time_body :: "'rt jsi \<Rightarrow> 'rt body" where
  "time_body J args timestampMs w =
     (case resolve_label J args (runtime w) of
        (Inl e, rt) \<Rightarrow> (Inl e, w\<lparr>runtime := rt\<rparr>)
      | (Inr label, rt) \<Rightarrow>
          let st = consoleState w in
          (case timerTable st label of
             None \<Rightarrow>
               (Inr (),
                w\<lparr>runtime := rt,
                  consoleState := st\<lparr>timerTable := (timerTable st)(label \<mapsto> timestampMs)\<rparr>\<rparr>)
           | Some _ \<Rightarrow>
               (Inr (),
                addConsoleMessage
                  \<lparr>msgTimestamp = timestampMs, msgType = kWarning,
                   msgArgs = [JSString (''Timer '' @ [CHR 0x27] @ label @ [CHR 0x27] @ '' already exists'')]\<rparr>
                  (w\<lparr>runtime := rt\<rparr>))))"

definition timeEnd_body :: "'rt jsi \<Rightarrow> 'rt body" where
  "timeEnd_body J args timestampMs w =
     (case resolve_label J args (runtime w) of
        (Inl e, rt) \<Rightarrow> (Inl e, w\<lparr>runtime := rt\<rparr>)
      | (Inr label, rt) \<Rightarrow>
          let st = consoleState w in
          (case timerTable st label of
             None \<Rightarrow>
               (Inr (),
                addConsoleMessage
                  \<lparr>msgTimestamp = timestampMs, msgType = kWarning,
                   msgArgs = [JSString (''Timer '' @ [CHR 0x27] @ label @ [CHR 0x27] @ '' does not exist'')]\<rparr>
                  (w\<lparr>runtime := rt\<rparr>))
           | Some start \<Rightarrow>
               let vec = [JSString (label @ '': '' @
                            to_string_double J (double_minus J timestampMs start) @ '' ms'')]
               in (Inr (),
                   addConsoleMessage
                     \<lparr>msgTimestamp = timestampMs, msgType = kTimeEnd, msgArgs = vec\<rparr>
                     (w\<lparr>runtime := rt,
                        consoleState := st\<lparr>timerTable := (timerTable st)(label := None)\<rparr>\<rparr>))))"

text \<open>
  The \<open>for\<close> statements \<^verbatim>\<open>for (size_t i = k; i != count; ++i) vec.emplace_back(runtime, args[i]);\<close>
  of timeLog, assert and the forwarding methods. They start at \<open>k \<le> count\<close> (the two
  that start at 1 are guarded by \<open>count > 1\<close>), where \<open>i != count\<close> is \<open>i < count\<close>.
\<close>

function emplace_args :: "nat \<Rightarrow> jsvalue list \<Rightarrow> jsvalue list \<Rightarrow> jsvalue list" where
  "emplace_args i args vec =
     (if i < length args then emplace_args (Suc i) args (vec @ [args ! i]) else vec)"
  by pat_completeness auto
termination
  by (relation "measure (\<lambda>(i, args, vec). length args - i)") auto

declare emplace_args.simps [simp del]

definition timeLog_body :: "'rt jsi \<Rightarrow> 'rt body" where
  "timeLog_body J args timestampMs w =
     (case resolve_label J args (runtime w) of
        (Inl e, rt) \<Rightarrow> (Inl e, w\<lparr>runtime := rt\<rparr>)
      | (Inr label, rt) \<Rightarrow>
          let st = consoleState w in
          (case timerTable st label of
             None \<Rightarrow>
               (Inr (),
                addConsoleMessage
                  \<lparr>msgTimestamp = timestampMs, msgType = kWarning,
                   msgArgs = [JSString (''Timer '' @ [CHR 0x27] @ label @ [CHR 0x27] @ '' does not exist'')]\<rparr>
                  (w\<lparr>runtime := rt\<rparr>))
           | Some start \<Rightarrow>
               let vec = [JSString (label @ '': '' @
                            to_string_double J (double_minus J timestampMs start) @ '' ms'')];
                   vec' = (if length args > 1 then emplace_args 1 args vec else vec)
               in (Inr (),
                   addConsoleMessage
                     \<lparr>msgTimestamp = timestampMs, msgType = kLog, msgArgs = vec'\<rparr>
                     (w\<lparr>runtime := rt\<rparr>))))"

definition assert_body :: "'rt body" where
  "assert_body args timestampMs w =
     (if length args \<ge> 1 \<and> toBoolean (args ! 0) then (Inr (), w)
      else
        let data = (if length args > 1 then emplace_args 1 args [] else []);
            data' = (case data of
                       [] \<Rightarrow> [JSString ''Assertion failed'']
                     | JSString s # rest \<Rightarrow> JSString (''Assertion failed: '' @ s) # rest
                     | _ \<Rightarrow> JSString ''Assertion failed'' # data)
        in (Inr (),
            addConsoleMessage
              \<lparr>msgTimestamp = timestampMs, msgType = kAssert, msgArgs = data'\<rparr> w))"

text \<open>The console methods that do nothing but emit a message.\<close>

definition kForwardingConsoleMethods :: "(string \<times> ConsoleAPIType) list" where
  "kForwardingConsoleMethods =
     [(''clear'', kClear),
      (''debug'', kDebug),
      (''dir'', kDir),
      (''dirxml'', kDirXML),
      (''error'', kError),
      (''group'', kStartGroup),
      (''groupCollapsed'', kStartGroupCollapsed),
      (''groupEnd'', kEndGroup),
      (''info'', kInfo),
      (''log'', kLog),
      (''table'', kTable),
      (''trace'', kTrace),
      (''warn'', kWarning)]"

definition forwarding_body :: "ConsoleAPIType \<Rightarrow> 'rt body" where
  "forwarding_body type args timestampMs w =
     (let argsVec = emplace_args 0 args []
      in (Inr (),
          addConsoleMessage
            \<lparr>msgTimestamp = timestampMs, msgType = type, msgArgs = argsVec\<rparr> w))"

subsection \<open>Reaching the delegate\<close>

text \<open>
  \<^verbatim>\<open>if (auto self = selfWeak.lock()) { func(self->delegate_); selfExecutor(<task holding self>); }\<close>
  When \<open>func\<close> throws, the scope of \<open>self\<close> is left before the hand-off: the strong
  reference is dropped where the exception unwinds, on the JS thread.
\<close>

definition delegateExecutorSync ::
    "('rt world \<Rightarrow> (thrown + unit) \<times> 'rt world) \<Rightarrow> 'rt world \<Rightarrow> (thrown + unit) \<times> 'rt world"
where
  "delegateExecutorSync func w =
     (if targetAlive w then
        (case func w of
           (Inl e, w') \<Rightarrow> (Inl e, w'\<lparr>jsThreadReleases := jsThreadReleases w' + 1\<rparr>)
         | (Inr _, w') \<Rightarrow> (Inr (), w'\<lparr>executorTasks := executorTasks w' + 1\<rparr>))
      else (Inr (), w))"

subsection \<open>Forwarding to the original console\<close>

definition forwardToOriginalConsole ::
    "'rt jsi \<Rightarrow> objref option \<Rightarrow> string \<Rightarrow> 'rt hostfn \<Rightarrow> 'rt hostfn"
where
  "forwardToOriginalConsole J originalConsole methodName innerFn args now w =
     (case innerFn args now w of
        (Inl e, w1) \<Rightarrow> (Inl e, w1)
      | (Inr retVal, w1) \<Rightarrow>
          (case originalConsole of
             None \<Rightarrow> (Inr retVal, w1)
           | Some oc \<Rightarrow>
               (case Object_getProperty J oc methodName (runtime w1) of
                  (Inl e, rt2) \<Rightarrow> (Inl e, w1\<lparr>runtime := rt2\<rparr>)
                | (Inr val, rt2) \<Rightarrow>
                    (case val of
                       JSObject obj \<Rightarrow>
                         if Object_isFunction J obj rt2 then
                           (case Function_callWithThis J obj oc args rt2 of
                              (Inl e, rt3) \<Rightarrow> (Inl e, w1\<lparr>runtime := rt3\<rparr>)
                            | (Inr _, rt3) \<Rightarrow> (Inr retVal, w1\<lparr>runtime := rt3\<rparr>))
                         else (Inr retVal, w1\<lparr>runtime := rt2\<rparr>)
                     | _ \<Rightarrow> (Inr retVal, w1\<lparr>runtime := rt2\<rparr>)))))"

subsection \<open>Installation\<close>

text \<open>
  The host function that \<open>installConsoleMethod\<close> wraps in \<open>forwardToOriginalConsole\<close>:
  it takes the timestamp (the clock reading \<open>now\<close>), runs the body through
  \<open>delegateExecutorSync\<close> and returns \<open>undefined\<close>.

  Its closure is \<open>mutable\<close> and builds the inner closure with \<open>body = std::move(body)\<close> at
  every call, before \<open>delegateExecutorSync\<close> decides whether to run it. That leaves the
  closure's own \<open>std::function\<close> in a valid but unspecified state: libc++ leaves a
  function whose target sits in its small buffer (as these lambdas do: no capture, or
  one enum) holding the target, libstdc++ leaves the function empty. The model records
  per method that its closure was moved from, and takes from \<open>moved_from_holds_target\<close>
  what a later call of the method finds: the body, or an empty function, whose call
  throws \<open>std::bad_function_call\<close>.
\<close>

definition bodyHostFunction :: "'rt jsi \<Rightarrow> string \<Rightarrow> 'rt body \<Rightarrow> 'rt hostfn" where
  "bodyHostFunction J methodName body args now w =
     (let timestampMs = now;
          held = (methodName \<notin> movedFrom w \<or> moved_from_holds_target J);
          w0 = w\<lparr>movedFrom := insert methodName (movedFrom w)\<rparr>;
          func = (if held then body args timestampMs else (\<lambda>w. (Inl bad_function_call, w)))
      in case delegateExecutorSync func w0 of
           (Inl e, w') \<Rightarrow> (Inl e, w')
         | (Inr _, w') \<Rightarrow> (Inr JSUndefined, w'))"

definition installConsoleMethod ::
    "'rt jsi \<Rightarrow> objref option \<Rightarrow> string \<Rightarrow> 'rt body \<Rightarrow> string \<times> 'rt hostfn"
where
  "installConsoleMethod J originalConsole methodName body =
     (methodName,
      forwardToOriginalConsole J originalConsole methodName (bodyHostFunction J methodName body))"

text \<open>
  \<open>installConsoleHandler\<close>, from the value of the global \<open>console\<close> it finds: the
  properties it sets on the new console object, in the order it sets them. (The new
  object's prototype and the write of the global binding are not modelled.)
\<close>

definition capturedConsole :: "jsvalue \<Rightarrow> objref option" where
  "capturedConsole originalConsoleVal =
     (case originalConsoleVal of JSObject oc \<Rightarrow> Some oc | _ \<Rightarrow> None)"

definition installConsoleHandler :: "'rt jsi \<Rightarrow> jsvalue \<Rightarrow> (string \<times> 'rt hostfn) list" where
  "installConsoleHandler J originalConsoleVal =
     (let originalConsole = capturedConsole originalConsoleVal
      in [installConsoleMethod J originalConsole ''count'' (count_body J),
          installConsoleMethod J originalConsole ''countReset'' (countReset_body J),
          installConsoleMethod J originalConsole ''time'' (time_body J),
          installConsoleMethod J originalConsole ''timeEnd'' (timeEnd_body J),
          installConsoleMethod J originalConsole ''timeLog'' (timeLog_body J),
          installConsoleMethod J originalConsole ''assert'' assert_body]
         @ map (\<lambda>(name, type). installConsoleMethod J originalConsole name (forwarding_body type))
             kForwardingConsoleMethods)"

text \<open>Property lookup on the new console: the last \<open>setProperty\<close> of a name wins.\<close>

definition consoleMethod :: "'rt jsi \<Rightarrow> jsvalue \<Rightarrow> string \<Rightarrow> 'rt hostfn option" where
  "consoleMethod J originalConsoleVal name =
     map_of (rev (installConsoleHandler J originalConsoleVal)) name"

text \<open>
  The state a fresh installation starts from, and a script's calls in sequence (the
  script is taken to catch what a call throws, and to go on).
\<close>

definition freshState :: ConsoleState where
  "freshState = \<lparr>countMap = Map.empty, timerTable = Map.empty\<rparr>"

fun runCalls ::
    "(string \<Rightarrow> 'rt hostfn option) \<Rightarrow> (string \<times> jsvalue list \<times> double) list \<Rightarrow> 'rt world \<Rightarrow> 'rt world"
where
  "runCalls console [] w = w"
| "runCalls console ((name, args, now) # calls) w =
     (case console name of
        None \<Rightarrow> runCalls console calls w
      | Some f \<Rightarrow> runCalls console calls (snd (f args now w)))"

text \<open>
  A script's call \<open>console.name(args)\<close> at clock reading \<open>now\<close>; \<open>None\<close> when \<open>name\<close> is not
  one of the installed methods.
\<close>

definition callConsole ::
    "'rt jsi \<Rightarrow> jsvalue \<Rightarrow> string \<Rightarrow> jsvalue list \<Rightarrow> double \<Rightarrow> 'rt world
       \<Rightarrow> ((thrown + jsvalue) \<times> 'rt world) option"
where
  "callConsole J originalConsoleVal name args now w =
     (case consoleMethod J originalConsoleVal name of
        None \<Rightarrow> None
      | Some f \<Rightarrow> Some (f args now w))"

subsection \<open>Auxiliary notions for the statements\<close>

text \<open>
  The second half of \<open>forwardToOriginalConsole\<close> on its own: what it does to the runtime
  once \<open>innerFn\<close> has returned, and whether it throws.
\<close>

definition forwardingStep ::
    "'rt jsi \<Rightarrow> objref option \<Rightarrow> string \<Rightarrow> jsvalue list \<Rightarrow> 'rt \<Rightarrow> (thrown + unit) \<times> 'rt"
where
  "forwardingStep J originalConsole methodName args rt =
     (case originalConsole of
        None \<Rightarrow> (Inr (), rt)
      | Some oc \<Rightarrow>
          (case Object_getProperty J oc methodName rt of
             (Inl e, rt2) \<Rightarrow> (Inl e, rt2)
           | (Inr val, rt2) \<Rightarrow>
               (case val of
                  JSObject obj \<Rightarrow>
                    if Object_isFunction J obj rt2 then
                      (case Function_callWithThis J obj oc args rt2 of
                         (Inl e, rt3) \<Rightarrow> (Inl e, rt3)
                       | (Inr _, rt3) \<Rightarrow> (Inr (), rt3))
                    else (Inr (), rt2)
                | _ \<Rightarrow> (Inr (), rt2))))"

text \<open>
  The body installed under a name, read off \<open>installConsoleHandler\<close>
  (\<open>consoleMethod_eq\<close> below ties it to the installed table).
\<close>

definition installedBody :: "'rt jsi \<Rightarrow> string \<Rightarrow> 'rt body option" where
  "installedBody J name =
     (if name = ''count'' then Some (count_body J)
      else if name = ''countReset'' then Some (countReset_body J)
      else if name = ''time'' then Some (time_body J)
      else if name = ''timeEnd'' then Some (timeEnd_body J)
      else if name = ''timeLog'' then Some (timeLog_body J)
      else if name = ''assert'' then Some assert_body
      else map_option forwarding_body (map_of kForwardingConsoleMethods name))"

text \<open>The closure of the method still holds its body: a call of the method will run it.\<close>

definition bodyHeld :: "'rt jsi \<Rightarrow> string \<Rightarrow> 'rt world \<Rightarrow> bool" where
  "bodyHeld J name w = (name \<notin> movedFrom w \<or> moved_from_holds_target J)"

text \<open>The arguments \<open>args\<close> name the label \<open>L\<close>, in whatever state the runtime is.\<close>

definition labelIs :: "'rt jsi \<Rightarrow> jsvalue list \<Rightarrow> string \<Rightarrow> bool" where
  "labelIs J args L = (\<forall>rt. fst (resolve_label J args rt) = Inr L)"

text \<open>
  A call of a script, as \<open>runCalls\<close> takes it, counts under the label \<open>L\<close>: it is a call
  to \<open>count\<close> whose arguments name \<open>L\<close>. It spares the count of \<open>L\<close>: its method is neither
  \<open>count\<close> nor \<open>countReset\<close>, or its arguments never give the label \<open>L\<close> (they give another
  label, or their string conversion throws).
\<close>

definition countsLabel :: "'rt jsi \<Rightarrow> string \<Rightarrow> string \<times> jsvalue list \<times> double \<Rightarrow> bool" where
  "countsLabel J L c = (fst c = ''count'' \<and> labelIs J (fst (snd c)) L)"

definition sparesLabel :: "'rt jsi \<Rightarrow> string \<Rightarrow> string \<times> jsvalue list \<times> double \<Rightarrow> bool" where
  "sparesLabel J L c =
     (fst c \<notin> {''count'', ''countReset''} \<or>
      (\<forall>rt. fst (resolve_label J (fst (snd c)) rt) \<noteq> Inr L))"

subsection \<open>A sample runtime\<close>

text \<open>
  A small runtime to evaluate the model on. Its state is the list of calls its
  functions have received: function, receiver, arguments. Object 1 is a console with a
  method \<open>log\<close> (function 10, returns the number 1), a method \<open>warn\<close> that throws
  (function 11), a property \<open>count\<close> that is an object but no function (object 12), a
  property \<open>info\<close> that is a number, and a property \<open>error\<close> whose getter throws. Object 3
  has a string conversion that throws. Numbers are 0, 1 or NaN as far as its string
  conversion knows, and its double arithmetic knows 150 - 100 = 50 and x - x = 0. A
  function that was moved from holds its target.
\<close>

type_synonym sample_rt = "(objref \<times> objref \<times> jsvalue list) list"

definition sampleJsi :: "sample_rt jsi" where
  "sampleJsi =
     \<lparr>Value_toString = (\<lambda>v rt.
        case v of
          JSUndefined \<Rightarrow> (Inr ''undefined'', rt)
        | JSNull \<Rightarrow> (Inr ''null'', rt)
        | JSBool b \<Rightarrow> (Inr (if b then ''true'' else ''false''), rt)
        | JSNumber m \<Rightarrow>
            (Inr (if double_eq_zero m then ''0''
                  else if m = 0x3FF0000000000000 then ''1'' else ''NaN''), rt)
        | JSSymbol _ \<Rightarrow> (Inr ''Symbol()'', rt)
        | JSString s \<Rightarrow> (Inr s, rt)
        | JSObject obj \<Rightarrow>
            if obj = 3 then (Inl (JSError (JSString ''TypeError'')), rt)
            else (Inr ''[object Object]'', rt)),
      Object_getProperty = (\<lambda>obj name rt.
        if obj = 1 \<and> name = ''log'' then (Inr (JSObject 10), rt)
        else if obj = 1 \<and> name = ''warn'' then (Inr (JSObject 11), rt)
        else if obj = 1 \<and> name = ''count'' then (Inr (JSObject 12), rt)
        else if obj = 1 \<and> name = ''info'' then (Inr (JSNumber 0x3FF0000000000000), rt)
        else if obj = 1 \<and> name = ''error'' then (Inl (JSError (JSString ''getter'')), rt)
        else (Inr JSUndefined, rt)),
      Object_isFunction = (\<lambda>obj rt. obj = 10 \<or> obj = 11),
      Function_callWithThis = (\<lambda>f this args rt.
        if f = 11 then (Inl (JSError (JSString ''boom'')), rt @ [(f, this, args)])
        else (Inr (JSNumber 0x3FF0000000000000), rt @ [(f, this, args)])),
      double_minus = (\<lambda>a b.
        if a = 0x4062C00000000000 \<and> b = 0x4059000000000000 then 0x4049000000000000
        else if a = b then 0 else 0x7FF8000000000000),
      to_string_double = (\<lambda>d.
        if d = 0x4049000000000000 then ''50.000000''
        else if d = 0 then ''0.000000'' else ''nan''),
      moved_from_holds_target = True\<rparr>"

definition sampleWorld :: "sample_rt world" where
  "sampleWorld =
     \<lparr>runtime = [], consoleState = freshState, targetAlive = True,
      delegateMessages = [], executorTasks = 0, jsThreadReleases = 0, movedFrom = {}\<rparr>"

text \<open>
  The same runtime on a standard library that leaves a function that was moved from
  empty.
\<close>

definition sampleEmptyingJsi :: "sample_rt jsi" where
  "sampleEmptyingJsi = sampleJsi\<lparr>moved_from_holds_target := False\<rparr>"

section \<open>Basic facts\<close>

text \<open>The copying \<open>for\<close> statements append the arguments from their start index on.\<close>

lemma emplace_args_eq: "emplace_args i args vec = vec @ drop i args"
proof (induction i args vec rule: emplace_args.induct)
  case (1 i args vec)
  show ?case
  proof (cases "i < length args")
    case True
    then show ?thesis using 1 by (subst emplace_args.simps) (simp add: Cons_nth_drop_Suc)
  next
    case False
    then show ?thesis by (subst emplace_args.simps) simp
  qed
qed

text \<open>Without a first argument, or with \<open>undefined\<close> as the first, the label is \<open>default\<close>.\<close>

lemma labelIs_no_args: "labelIs J [] ''default''"
  by (simp add: labelIs_def resolve_label_def)

lemma labelIs_undefined: "labelIs J (JSUndefined # rest) ''default''"
  by (simp add: labelIs_def resolve_label_def)

lemma labelIsD: "labelIs J args L \<Longrightarrow> fst (resolve_label J args rt) = Inr L"
  by (simp add: labelIs_def)

lemma resolve_label_fstD:
  "fst (resolve_label J args rt) = Inr L \<Longrightarrow> \<exists>rt'. resolve_label J args rt = (Inr L, rt')"
  by (cases "resolve_label J args rt") simp

text \<open>
  \<open>forwardToOriginalConsole\<close> is \<open>innerFn\<close> followed by the forwarding step, which touches
  nothing but the runtime.
\<close>

lemma forwardToOriginalConsole_eq:
  "forwardToOriginalConsole J oc n inner args now w =
     (case inner args now w of
        (Inl e, w1) \<Rightarrow> (Inl e, w1)
      | (Inr v, w1) \<Rightarrow>
          (case forwardingStep J oc n args (runtime w1) of
             (Inl e, rt) \<Rightarrow> (Inl e, w1\<lparr>runtime := rt\<rparr>)
           | (Inr _, rt) \<Rightarrow> (Inr v, w1\<lparr>runtime := rt\<rparr>)))"
  by (simp add: forwardToOriginalConsole_def forwardingStep_def
      split: prod.splits sum.splits option.splits jsvalue.splits)

lemma forward_frame:
  "consoleState (snd (forwardToOriginalConsole J oc n inner args now w)) = consoleState (snd (inner args now w))"
  "delegateMessages (snd (forwardToOriginalConsole J oc n inner args now w)) = delegateMessages (snd (inner args now w))"
  "targetAlive (snd (forwardToOriginalConsole J oc n inner args now w)) = targetAlive (snd (inner args now w))"
  "executorTasks (snd (forwardToOriginalConsole J oc n inner args now w)) = executorTasks (snd (inner args now w))"
  "jsThreadReleases (snd (forwardToOriginalConsole J oc n inner args now w)) = jsThreadReleases (snd (inner args now w))"
  "movedFrom (snd (forwardToOriginalConsole J oc n inner args now w)) = movedFrom (snd (inner args now w))"
  by (simp_all add: forwardToOriginalConsole_eq split: prod.splits sum.splits)

lemma forward_isl:
  "isl (fst (forwardToOriginalConsole J oc n inner args now w)) \<longleftrightarrow>
     isl (fst (inner args now w)) \<or>
     isl (fst (forwardingStep J oc n args (runtime (snd (inner args now w)))))"
  by (simp add: forwardToOriginalConsole_eq split: prod.splits sum.splits)

lemma forward_result:
  "fst (forwardToOriginalConsole J oc n inner args now w) = Inr v \<Longrightarrow> fst (inner args now w) = Inr v"
  by (simp add: forwardToOriginalConsole_eq split: prod.splits sum.splits)

text \<open>The installed table, name by name.\<close>

lemma installedBody_simps:
  "installedBody J ''count'' = Some (count_body J)"
  "installedBody J ''countReset'' = Some (countReset_body J)"
  "installedBody J ''time'' = Some (time_body J)"
  "installedBody J ''timeEnd'' = Some (timeEnd_body J)"
  "installedBody J ''timeLog'' = Some (timeLog_body J)"
  "installedBody J ''assert'' = Some assert_body"
  by (simp_all add: installedBody_def)

lemma installedBody_cases:
  assumes "installedBody J name = Some body"
  shows "(name = ''count'' \<and> body = count_body J) \<or>
         (name = ''countReset'' \<and> body = countReset_body J) \<or>
         (name = ''time'' \<and> body = time_body J) \<or>
         (name = ''timeEnd'' \<and> body = timeEnd_body J) \<or>
         (name = ''timeLog'' \<and> body = timeLog_body J) \<or>
         (name = ''assert'' \<and> body = assert_body) \<or>
         (name \<noteq> ''time'' \<and> name \<noteq> ''timeEnd'' \<and> (\<exists>type. body = forwarding_body type))"
  using assms by (auto simp: installedBody_def split: if_splits)

lemma forwarding_cases:
  assumes "(name, type) \<in> set kForwardingConsoleMethods"
  shows "installedBody J name = Some (forwarding_body type) \<and> (type = kWarning \<longleftrightarrow> name = ''warn'')"
proof -
  from assms have "(name, type) \<in> {(''clear'', kClear), (''debug'', kDebug), (''dir'', kDir),
      (''dirxml'', kDirXML), (''error'', kError), (''group'', kStartGroup),
      (''groupCollapsed'', kStartGroupCollapsed), (''groupEnd'', kEndGroup), (''info'', kInfo),
      (''log'', kLog), (''table'', kTable), (''trace'', kTrace), (''warn'', kWarning)}"
    by (simp add: kForwardingConsoleMethods_def)
  then show ?thesis
    by (elim insertE emptyE; simp add: installedBody_def kForwardingConsoleMethods_def)
qed

lemma body_targetAlive:
  "targetAlive (snd (count_body J args now w)) = targetAlive w"
  "targetAlive (snd (countReset_body J args now w)) = targetAlive w"
  "targetAlive (snd (time_body J args now w)) = targetAlive w"
  "targetAlive (snd (timeEnd_body J args now w)) = targetAlive w"
  "targetAlive (snd (timeLog_body J args now w)) = targetAlive w"
  "targetAlive (snd (assert_body args now w)) = targetAlive w"
  "targetAlive (snd (forwarding_body type args now w)) = targetAlive w"
  by (simp_all add: count_body_def countReset_body_def time_body_def timeEnd_body_def
      timeLog_body_def assert_body_def forwarding_body_def addConsoleMessage_def Let_def
      split: prod.splits sum.splits option.splits)

lemma installedBody_targetAlive:
  "installedBody J name = Some body \<Longrightarrow> targetAlive (snd (body args now w)) = targetAlive w"
  by (auto simp: installedBody_def body_targetAlive split: if_splits)

text \<open>No body reads or writes the record of the closures that were moved from.\<close>

lemma body_movedFrom:
  "count_body J args now (w\<lparr>movedFrom := m\<rparr>) =
     (fst (count_body J args now w), (snd (count_body J args now w))\<lparr>movedFrom := m\<rparr>)"
  "countReset_body J args now (w\<lparr>movedFrom := m\<rparr>) =
     (fst (countReset_body J args now w), (snd (countReset_body J args now w))\<lparr>movedFrom := m\<rparr>)"
  "time_body J args now (w\<lparr>movedFrom := m\<rparr>) =
     (fst (time_body J args now w), (snd (time_body J args now w))\<lparr>movedFrom := m\<rparr>)"
  "timeEnd_body J args now (w\<lparr>movedFrom := m\<rparr>) =
     (fst (timeEnd_body J args now w), (snd (timeEnd_body J args now w))\<lparr>movedFrom := m\<rparr>)"
  "timeLog_body J args now (w\<lparr>movedFrom := m\<rparr>) =
     (fst (timeLog_body J args now w), (snd (timeLog_body J args now w))\<lparr>movedFrom := m\<rparr>)"
  "assert_body args now (w\<lparr>movedFrom := m\<rparr>) =
     (fst (assert_body args now w), (snd (assert_body args now w))\<lparr>movedFrom := m\<rparr>)"
  "forwarding_body type args now (w\<lparr>movedFrom := m\<rparr>) =
     (fst (forwarding_body type args now w), (snd (forwarding_body type args now w))\<lparr>movedFrom := m\<rparr>)"
  by (simp_all add: count_body_def countReset_body_def time_body_def timeEnd_body_def
      timeLog_body_def assert_body_def forwarding_body_def addConsoleMessage_def Let_def
      split: prod.splits sum.splits option.splits)

lemma installedBody_movedFrom:
  assumes "installedBody J name = Some body"
  shows "body args now (w\<lparr>movedFrom := m\<rparr>) =
           (fst (body args now w), (snd (body args now w))\<lparr>movedFrom := m\<rparr>)"
  using installedBody_cases [OF assms]
  by (elim disjE conjE exE) (simp_all add: body_movedFrom)

text \<open>
  The host function of an installed body: skipped when the target is gone, an empty
  function when the closure was emptied by an earlier call, the body otherwise.
\<close>

lemma bodyHostFunction_eq:
  assumes "installedBody J name = Some body"
  shows "bodyHostFunction J name body args now w =
           (if \<not> targetAlive w then (Inr JSUndefined, w\<lparr>movedFrom := insert name (movedFrom w)\<rparr>)
            else if \<not> bodyHeld J name w then
              (Inl bad_function_call,
               w\<lparr>movedFrom := insert name (movedFrom w), jsThreadReleases := jsThreadReleases w + 1\<rparr>)
            else
              (case body args now w of
                 (Inl e, w1) \<Rightarrow>
                   (Inl e, w1\<lparr>movedFrom := insert name (movedFrom w),
                               jsThreadReleases := jsThreadReleases w1 + 1\<rparr>)
               | (Inr _, w1) \<Rightarrow>
                   (Inr JSUndefined,
                    w1\<lparr>movedFrom := insert name (movedFrom w),
                       executorTasks := executorTasks w1 + 1\<rparr>)))"
  by (simp add: bodyHostFunction_def delegateExecutorSync_def bodyHeld_def Let_def
      installedBody_movedFrom [OF assms] split: prod.splits sum.splits)

lemma bodyHost_frame:
  assumes "installedBody J name = Some body"
  shows "consoleState (snd (bodyHostFunction J name body args now w)) =
     (if targetAlive w \<and> bodyHeld J name w then consoleState (snd (body args now w)) else consoleState w)"
    and "delegateMessages (snd (bodyHostFunction J name body args now w)) =
     (if targetAlive w \<and> bodyHeld J name w then delegateMessages (snd (body args now w))
      else delegateMessages w)"
    and "targetAlive (snd (bodyHostFunction J name body args now w)) = targetAlive w"
    and "movedFrom (snd (bodyHostFunction J name body args now w)) = insert name (movedFrom w)"
  using installedBody_targetAlive [OF assms, of args now w]
  by (auto simp: bodyHostFunction_eq [OF assms] split: prod.splits sum.splits)

lemma bodyHostFunction_dead:
  "\<not> targetAlive w \<Longrightarrow>
     bodyHostFunction J name body args now w =
       (Inr JSUndefined, w\<lparr>movedFrom := insert name (movedFrom w)\<rparr>)"
  by (simp add: bodyHostFunction_def delegateExecutorSync_def Let_def)

lemma bodyHostFunction_result:
  "fst (bodyHostFunction J name body args now w) = Inr v \<Longrightarrow> v = JSUndefined"
  by (auto simp: bodyHostFunction_def delegateExecutorSync_def Let_def
      split: prod.splits sum.splits if_splits)

lemma bodyHostFunction_isl:
  assumes "installedBody J name = Some body"
  shows "isl (fst (bodyHostFunction J name body args now w)) \<longleftrightarrow>
           targetAlive w \<and> (\<not> bodyHeld J name w \<or> isl (fst (body args now w)))"
  by (simp add: bodyHostFunction_eq [OF assms] split: prod.splits sum.splits)


lemma consoleMethod_eq:
  "consoleMethod J ocv name =
     map_option (\<lambda>body. forwardToOriginalConsole J (capturedConsole ocv) name (bodyHostFunction J name body))
       (installedBody J name)"
  by (simp add: consoleMethod_def installConsoleHandler_def installConsoleMethod_def
      kForwardingConsoleMethods_def installedBody_def Let_def)

lemma consoleMethod_SomeD:
  "consoleMethod J ocv name = Some f \<Longrightarrow>
     \<exists>body. installedBody J name = Some body \<and>
       f = forwardToOriginalConsole J (capturedConsole ocv) name (bodyHostFunction J name body)"
  by (auto simp: consoleMethod_eq)

lemma callConsole_eq:
  "callConsole J ocv name args now w =
     map_option (\<lambda>body. forwardToOriginalConsole J (capturedConsole ocv) name (bodyHostFunction J name body) args now w)
       (installedBody J name)"
  by (simp add: callConsole_def consoleMethod_eq split: option.splits)

lemma call_alive:
  assumes "installedBody J name = Some body" and "targetAlive w" and "bodyHeld J name w"
  shows "\<exists>r w'. callConsole J ocv name args now w = Some (r, w') \<and>
           delegateMessages w' = delegateMessages (snd (body args now w)) \<and>
           consoleState w' = consoleState (snd (body args now w))"
proof -
  let ?X = "forwardToOriginalConsole J (capturedConsole ocv) name (bodyHostFunction J name body) args now w"
  have "callConsole J ocv name args now w = Some (fst ?X, snd ?X)"
    by (simp add: callConsole_eq assms(1))
  moreover have "delegateMessages (snd ?X) = delegateMessages (snd (body args now w))"
    and "consoleState (snd ?X) = consoleState (snd (body args now w))"
    using assms(2,3) by (simp_all add: forward_frame bodyHost_frame [OF assms(1)])
  ultimately show ?thesis by blast
qed

lemma callConsole_SomeD:
  assumes "callConsole J ocv name args now w = Some (r, w')"
  shows "\<exists>body. installedBody J name = Some body \<and>
           (r, w') = forwardToOriginalConsole J (capturedConsole ocv) name
                       (bodyHostFunction J name body) args now w \<and>
           consoleState w' =
             (if targetAlive w \<and> bodyHeld J name w then consoleState (snd (body args now w))
              else consoleState w) \<and>
           delegateMessages w' =
             (if targetAlive w \<and> bodyHeld J name w then delegateMessages (snd (body args now w))
              else delegateMessages w)"
proof -
  from assms obtain body where b: "installedBody J name = Some body"
    and e: "forwardToOriginalConsole J (capturedConsole ocv) name (bodyHostFunction J name body) args now w = (r, w')"
    by (auto simp: callConsole_eq)
  have "w' = snd (forwardToOriginalConsole J (capturedConsole ocv) name (bodyHostFunction J name body) args now w)"
    by (simp add: e)
  then have "consoleState w' =
             (if targetAlive w \<and> bodyHeld J name w then consoleState (snd (body args now w))
              else consoleState w)"
    and "delegateMessages w' =
             (if targetAlive w \<and> bodyHeld J name w then delegateMessages (snd (body args now w))
              else delegateMessages w)"
    by (simp_all add: forward_frame bodyHost_frame [OF b])
  with b e show ?thesis by auto
qed

lemma runCalls_append: "runCalls C (xs @ ys) w = runCalls C ys (runCalls C xs w)"
  by (induction C xs w rule: runCalls.induct) (simp_all split: option.splits)

lemma bodyHeld_always: "moved_from_holds_target J \<Longrightarrow> bodyHeld J name w"
  by (simp add: bodyHeld_def)

lemma runCalls_one:
  assumes "installedBody J name = Some body" and "targetAlive w" and "bodyHeld J name w"
  shows "targetAlive (runCalls (consoleMethod J ocv) [(name, args, now)] w)"
    and "delegateMessages (runCalls (consoleMethod J ocv) [(name, args, now)] w) =
           delegateMessages (snd (body args now w))"
    and "consoleState (runCalls (consoleMethod J ocv) [(name, args, now)] w) =
           consoleState (snd (body args now w))"
  using assms
  by (simp_all add: consoleMethod_eq forward_frame bodyHost_frame)

text \<open>What each body does to the delegate and to the state, once the label is known.\<close>

lemma count_body_effect:
  assumes "fst (resolve_label J args (runtime w)) = Inr L"
  shows "delegateMessages (snd (count_body J args now w)) =
           delegateMessages w @
             [\<lparr>msgTimestamp = now, msgType = kCount,
               msgArgs = [JSString (L @ '': '' @ to_string_int (sint
                  (case countMap (consoleState w) L of None \<Rightarrow> 1 | Some c \<Rightarrow> c + 1)))]\<rparr>]"
    and "consoleState (snd (count_body J args now w)) =
           (consoleState w)\<lparr>countMap := (countMap (consoleState w))
              (L \<mapsto> (case countMap (consoleState w) L of None \<Rightarrow> 1 | Some c \<Rightarrow> c + 1))\<rparr>"
proof -
  from assms obtain rt where rl: "resolve_label J args (runtime w) = (Inr L, rt)"
    by (auto dest: resolve_label_fstD)
  show "delegateMessages (snd (count_body J args now w)) =
           delegateMessages w @
             [\<lparr>msgTimestamp = now, msgType = kCount,
               msgArgs = [JSString (L @ '': '' @ to_string_int (sint
                  (case countMap (consoleState w) L of None \<Rightarrow> 1 | Some c \<Rightarrow> c + 1)))]\<rparr>]"
    and "consoleState (snd (count_body J args now w)) =
           (consoleState w)\<lparr>countMap := (countMap (consoleState w))
              (L \<mapsto> (case countMap (consoleState w) L of None \<Rightarrow> 1 | Some c \<Rightarrow> c + 1))\<rparr>"
    using rl by (simp_all add: count_body_def addConsoleMessage_def Let_def)
qed

lemma countReset_body_effect:
  assumes "fst (resolve_label J args (runtime w)) = Inr L"
  shows "delegateMessages (snd (countReset_body J args now w)) =
        (case countMap (consoleState w) L of
           None \<Rightarrow> delegateMessages w @
             [\<lparr>msgTimestamp = now, msgType = kWarning,
               msgArgs = [JSString (''Count for '' @ [CHR 0x27] @ L @ [CHR 0x27] @ '' does not exist'')]\<rparr>]
         | Some c \<Rightarrow> delegateMessages w)"
    and "consoleState (snd (countReset_body J args now w)) =
        (case countMap (consoleState w) L of
           None \<Rightarrow> consoleState w
         | Some c \<Rightarrow> (consoleState w)\<lparr>countMap := (countMap (consoleState w))(L \<mapsto> 0)\<rparr>)"
proof -
  from assms obtain rt where rl: "resolve_label J args (runtime w) = (Inr L, rt)"
    by (auto dest: resolve_label_fstD)
  show "delegateMessages (snd (countReset_body J args now w)) =
        (case countMap (consoleState w) L of
           None \<Rightarrow> delegateMessages w @
             [\<lparr>msgTimestamp = now, msgType = kWarning,
               msgArgs = [JSString (''Count for '' @ [CHR 0x27] @ L @ [CHR 0x27] @ '' does not exist'')]\<rparr>]
         | Some c \<Rightarrow> delegateMessages w)"
    and "consoleState (snd (countReset_body J args now w)) =
        (case countMap (consoleState w) L of
           None \<Rightarrow> consoleState w
         | Some c \<Rightarrow> (consoleState w)\<lparr>countMap := (countMap (consoleState w))(L \<mapsto> 0)\<rparr>)"
    using rl by (simp_all add: countReset_body_def addConsoleMessage_def Let_def split: option.splits)
qed

lemma time_body_effect:
  assumes "fst (resolve_label J args (runtime w)) = Inr L"
  shows "delegateMessages (snd (time_body J args now w)) =
           (case timerTable (consoleState w) L of
              None \<Rightarrow> delegateMessages w
            | Some s \<Rightarrow> delegateMessages w @
                [\<lparr>msgTimestamp = now, msgType = kWarning,
                  msgArgs = [JSString (''Timer '' @ [CHR 0x27] @ L @ [CHR 0x27] @ '' already exists'')]\<rparr>])"
    and "consoleState (snd (time_body J args now w)) =
           (case timerTable (consoleState w) L of
              None \<Rightarrow> (consoleState w)\<lparr>timerTable := (timerTable (consoleState w))(L \<mapsto> now)\<rparr>
            | Some s \<Rightarrow> consoleState w)"
proof -
  from assms obtain rt where rl: "resolve_label J args (runtime w) = (Inr L, rt)"
    by (auto dest: resolve_label_fstD)
  show "delegateMessages (snd (time_body J args now w)) =
           (case timerTable (consoleState w) L of
              None \<Rightarrow> delegateMessages w
            | Some s \<Rightarrow> delegateMessages w @
                [\<lparr>msgTimestamp = now, msgType = kWarning,
                  msgArgs = [JSString (''Timer '' @ [CHR 0x27] @ L @ [CHR 0x27] @ '' already exists'')]\<rparr>])"
    and "consoleState (snd (time_body J args now w)) =
           (case timerTable (consoleState w) L of
              None \<Rightarrow> (consoleState w)\<lparr>timerTable := (timerTable (consoleState w))(L \<mapsto> now)\<rparr>
            | Some s \<Rightarrow> consoleState w)"
    using rl by (simp_all add: time_body_def addConsoleMessage_def Let_def split: option.splits)
qed

lemma timeEnd_body_effect:
  assumes "fst (resolve_label J args (runtime w)) = Inr L"
  shows "delegateMessages (snd (timeEnd_body J args now w)) =
           (case timerTable (consoleState w) L of
              None \<Rightarrow> delegateMessages w @
                [\<lparr>msgTimestamp = now, msgType = kWarning,
                  msgArgs = [JSString (''Timer '' @ [CHR 0x27] @ L @ [CHR 0x27] @ '' does not exist'')]\<rparr>]
            | Some s \<Rightarrow> delegateMessages w @
                [\<lparr>msgTimestamp = now, msgType = kTimeEnd,
                  msgArgs = [JSString (L @ '': '' @ to_string_double J (double_minus J now s) @ '' ms'')]\<rparr>])"
    and "consoleState (snd (timeEnd_body J args now w)) =
           (case timerTable (consoleState w) L of
              None \<Rightarrow> consoleState w
            | Some s \<Rightarrow> (consoleState w)\<lparr>timerTable := (timerTable (consoleState w))(L := None)\<rparr>)"
proof -
  from assms obtain rt where rl: "resolve_label J args (runtime w) = (Inr L, rt)"
    by (auto dest: resolve_label_fstD)
  show "delegateMessages (snd (timeEnd_body J args now w)) =
           (case timerTable (consoleState w) L of
              None \<Rightarrow> delegateMessages w @
                [\<lparr>msgTimestamp = now, msgType = kWarning,
                  msgArgs = [JSString (''Timer '' @ [CHR 0x27] @ L @ [CHR 0x27] @ '' does not exist'')]\<rparr>]
            | Some s \<Rightarrow> delegateMessages w @
                [\<lparr>msgTimestamp = now, msgType = kTimeEnd,
                  msgArgs = [JSString (L @ '': '' @ to_string_double J (double_minus J now s) @ '' ms'')]\<rparr>])"
    and "consoleState (snd (timeEnd_body J args now w)) =
           (case timerTable (consoleState w) L of
              None \<Rightarrow> consoleState w
            | Some s \<Rightarrow> (consoleState w)\<lparr>timerTable := (timerTable (consoleState w))(L := None)\<rparr>)"
    using rl by (simp_all add: timeEnd_body_def addConsoleMessage_def Let_def split: option.splits)
qed

lemma timeLog_body_effect:
  assumes "fst (resolve_label J args (runtime w)) = Inr L"
  shows "delegateMessages (snd (timeLog_body J args now w)) =
           (case timerTable (consoleState w) L of
              None \<Rightarrow> delegateMessages w @
                [\<lparr>msgTimestamp = now, msgType = kWarning,
                  msgArgs = [JSString (''Timer '' @ [CHR 0x27] @ L @ [CHR 0x27] @ '' does not exist'')]\<rparr>]
            | Some s \<Rightarrow> delegateMessages w @
                [\<lparr>msgTimestamp = now, msgType = kLog,
                  msgArgs = JSString (L @ '': '' @ to_string_double J (double_minus J now s) @ '' ms'')
                            # drop 1 args\<rparr>])"
    and "consoleState (snd (timeLog_body J args now w)) = consoleState w"
proof -
  from assms obtain rt where rl: "resolve_label J args (runtime w) = (Inr L, rt)"
    by (auto dest: resolve_label_fstD)
  show "delegateMessages (snd (timeLog_body J args now w)) =
           (case timerTable (consoleState w) L of
              None \<Rightarrow> delegateMessages w @
                [\<lparr>msgTimestamp = now, msgType = kWarning,
                  msgArgs = [JSString (''Timer '' @ [CHR 0x27] @ L @ [CHR 0x27] @ '' does not exist'')]\<rparr>]
            | Some s \<Rightarrow> delegateMessages w @
                [\<lparr>msgTimestamp = now, msgType = kLog,
                  msgArgs = JSString (L @ '': '' @ to_string_double J (double_minus J now s) @ '' ms'')
                            # drop 1 args\<rparr>])"
    and "consoleState (snd (timeLog_body J args now w)) = consoleState w"
    using rl by (simp_all add: timeLog_body_def addConsoleMessage_def Let_def emplace_args_eq
        split: option.splits)
qed

lemma assert_body_effect:
  "consoleState (snd (assert_body args now w)) = consoleState w"
  "delegateMessages (snd (assert_body args now w)) =
     (case args of
        [] \<Rightarrow> delegateMessages w @
                [\<lparr>msgTimestamp = now, msgType = kAssert, msgArgs = [JSString ''Assertion failed'']\<rparr>]
      | a # rest \<Rightarrow>
          if toBoolean a then delegateMessages w
          else delegateMessages w @
                 [\<lparr>msgTimestamp = now, msgType = kAssert,
                   msgArgs = (case rest of
                                [] \<Rightarrow> [JSString ''Assertion failed'']
                              | JSString s # ys \<Rightarrow> JSString (''Assertion failed: '' @ s) # ys
                              | x # ys \<Rightarrow> JSString ''Assertion failed'' # x # ys)\<rparr>])"
  by (simp_all add: assert_body_def addConsoleMessage_def Let_def emplace_args_eq
      split: list.splits jsvalue.splits)

lemma forwarding_body_effect:
  "consoleState (snd (forwarding_body type args now w)) = consoleState w"
  "delegateMessages (snd (forwarding_body type args now w)) =
     delegateMessages w @ [\<lparr>msgTimestamp = now, msgType = type, msgArgs = args\<rparr>]"
  by (simp_all add: forwarding_body_def addConsoleMessage_def Let_def emplace_args_eq)

text \<open>A body throws only where the string conversion of its label throws.\<close>

lemma label_body_isl:
  "isl (fst (count_body J args now w)) = isl (fst (resolve_label J args (runtime w)))"
  "isl (fst (countReset_body J args now w)) = isl (fst (resolve_label J args (runtime w)))"
  "isl (fst (time_body J args now w)) = isl (fst (resolve_label J args (runtime w)))"
  "isl (fst (timeEnd_body J args now w)) = isl (fst (resolve_label J args (runtime w)))"
  "isl (fst (timeLog_body J args now w)) = isl (fst (resolve_label J args (runtime w)))"
  by (simp_all add: count_body_def countReset_body_def time_body_def timeEnd_body_def timeLog_body_def
        Let_def split: prod.splits sum.splits option.splits)

lemma other_body_isl:
  "\<not> isl (fst (assert_body args now w))"
  "\<not> isl (fst (forwarding_body type args now w))"
  by (simp_all add: assert_body_def forwarding_body_def Let_def)

lemma body_raises_only_on_label:
  assumes "installedBody J name = Some body" and "isl (fst (body args now w))"
  shows "name \<in> {''count'', ''countReset'', ''time'', ''timeEnd'', ''timeLog''} \<and>
         isl (fst (resolve_label J args (runtime w)))"
  using installedBody_cases [OF assms(1)] assms(2)
  by (elim disjE conjE exE) (simp_all add: label_body_isl other_body_isl)

text \<open>The definitions to unfold when a call is evaluated on the sample runtime.\<close>

lemmas sample_eval =
  callConsole_eq installedBody_def kForwardingConsoleMethods_def forwardToOriginalConsole_eq
  forwardingStep_def capturedConsole_def bodyHostFunction_def delegateExecutorSync_def bodyHeld_def Let_def
  count_body_def countReset_body_def time_body_def timeEnd_body_def timeLog_body_def
  assert_body_def forwarding_body_def emplace_args_eq
  resolve_label_def sampleJsi_def sampleWorld_def freshState_def addConsoleMessage_def

section \<open>count\<close>

lemma sint_small: "k \<le> 2147483647 \<Longrightarrow> sint (of_nat k :: 32 word) = int k"
  by (simp add: signed_of_nat signed_take_bit_int_eq_self)

lemma count_run:
  assumes "targetAlive w" and "\<forall>c\<in>set calls. labelIs J (fst c) L"
    and "moved_from_holds_target J"
  shows "targetAlive (runCalls (consoleMethod J ocv) (map (\<lambda>(args, now). (''count'', args, now)) calls) w) \<and>
         delegateMessages (runCalls (consoleMethod J ocv) (map (\<lambda>(args, now). (''count'', args, now)) calls) w) =
           delegateMessages w @
             map (\<lambda>i. \<lparr>msgTimestamp = snd (calls ! i), msgType = kCount,
                        msgArgs = [JSString (L @ '': '' @ to_string_int (sint
                          ((case countMap (consoleState w) L of None \<Rightarrow> 0 | Some c \<Rightarrow> c)
                             + of_nat (Suc i))))]\<rparr>)
               [0..<length calls] \<and>
         (calls \<noteq> [] \<longrightarrow>
            countMap (consoleState (runCalls (consoleMethod J ocv) (map (\<lambda>(args, now). (''count'', args, now)) calls) w)) L =
              Some ((case countMap (consoleState w) L of None \<Rightarrow> 0 | Some c \<Rightarrow> c) + of_nat (length calls)))"
  using assms(2)
proof (induction calls rule: rev_induct)
  case Nil
  show ?case using assms(1) by simp
next
  case (snoc c calls)
  obtain args now where c: "c = (args, now)" by (cases c)
  let ?C = "consoleMethod J ocv"
  let ?w1 = "runCalls ?C (map (\<lambda>(args, now). (''count'', args, now)) calls) w"
  let ?base = "case countMap (consoleState w) L of None \<Rightarrow> 0 | Some c \<Rightarrow> c"
  from snoc have ih: "targetAlive ?w1"
    "delegateMessages ?w1 = delegateMessages w @
             map (\<lambda>i. \<lparr>msgTimestamp = snd (calls ! i), msgType = kCount,
                        msgArgs = [JSString (L @ '': '' @ to_string_int (sint (?base + of_nat (Suc i))))]\<rparr>)
               [0..<length calls]"
    "calls \<noteq> [] \<longrightarrow> countMap (consoleState ?w1) L = Some (?base + of_nat (length calls))"
    by simp_all
  from snoc.prems c have lab: "fst (resolve_label J args (runtime ?w1)) = Inr L"
    by (simp add: labelIsD)
  have cnt: "(case countMap (consoleState ?w1) L of None \<Rightarrow> 1 | Some c \<Rightarrow> c + 1) =
      ?base + of_nat (Suc (length calls))"
  proof (cases "calls = []")
    case True
    then show ?thesis by (simp split: option.splits)
  next
    case False
    with ih(3) show ?thesis by simp
  qed
  have run: "runCalls ?C (map (\<lambda>(args, now). (''count'', args, now)) (calls @ [c])) w =
      runCalls ?C [(''count'', args, now)] ?w1"
    by (simp add: runCalls_append c)
  note one = runCalls_one [OF installedBody_simps(1) ih(1) bodyHeld_always [OF assms(3)], of ocv args now]
  have m: "map (\<lambda>i. \<lparr>msgTimestamp = snd ((calls @ [c]) ! i), msgType = kCount,
                        msgArgs = [JSString (L @ '': '' @ to_string_int (sint (?base + of_nat (Suc i))))]\<rparr>)
               [0..<length calls] =
           map (\<lambda>i. \<lparr>msgTimestamp = snd (calls ! i), msgType = kCount,
                        msgArgs = [JSString (L @ '': '' @ to_string_int (sint (?base + of_nat (Suc i))))]\<rparr>)
               [0..<length calls]"
    by (rule map_cong) (simp_all add: nth_append)
  show ?case
    unfolding run
    by (simp only: one count_body_effect [OF lab] cnt ih(2) m length_append list.size
          upt_Suc_append map_append list.map nth_append_length snd_conv c)
       (simp add: nth_append)
qed

lemma count_default_same:
  assumes "labelIs J a1 L" and "labelIs J a2 L"
  shows "\<exists>r1 u1 r2 u2.
           callConsole J ocv ''count'' a1 now u = Some (r1, u1) \<and>
           callConsole J ocv ''count'' a2 now u = Some (r2, u2) \<and>
           delegateMessages u1 = delegateMessages u2 \<and> consoleState u1 = consoleState u2"
proof -
  let ?f = "forwardToOriginalConsole J (capturedConsole ocv) ''count'' (bodyHostFunction J ''count'' (count_body J))"
  have c: "callConsole J ocv ''count'' a now u = Some (fst (?f a now u), snd (?f a now u))" for a
    by (simp add: callConsole_eq installedBody_simps)
  have "delegateMessages (snd (?f a1 now u)) = delegateMessages (snd (?f a2 now u))"
    and "consoleState (snd (?f a1 now u)) = consoleState (snd (?f a2 now u))"
    by (simp_all add: forward_frame bodyHost_frame [OF installedBody_simps(1)]
          count_body_effect [OF labelIsD [OF assms(1)]] count_body_effect [OF labelIsD [OF assms(2)]])
  with c [of a1] c [of a2] show ?thesis by blast
qed

text \<open>
  The counts are kept label by label: a call that is not \<open>count\<close> or \<open>countReset\<close> with
  the label \<open>L\<close> leaves the count of \<open>L\<close> as it is.
\<close>

lemma body_countMap_same:
  "countMap (consoleState (snd (time_body J args now w))) = countMap (consoleState w)"
  "countMap (consoleState (snd (timeEnd_body J args now w))) = countMap (consoleState w)"
  "countMap (consoleState (snd (timeLog_body J args now w))) = countMap (consoleState w)"
  "countMap (consoleState (snd (assert_body args now w))) = countMap (consoleState w)"
  "countMap (consoleState (snd (forwarding_body type args now w))) = countMap (consoleState w)"
  by (simp_all add: time_body_def timeEnd_body_def timeLog_body_def assert_body_def
      forwarding_body_def addConsoleMessage_def Let_def split: prod.splits sum.splits option.splits)

lemma count_body_other_label:
  assumes "fst (resolve_label J args (runtime w)) \<noteq> Inr L"
  shows "countMap (consoleState (snd (count_body J args now w))) L = countMap (consoleState w) L"
    and "countMap (consoleState (snd (countReset_body J args now w))) L = countMap (consoleState w) L"
  using assms
  by (auto simp: count_body_def countReset_body_def addConsoleMessage_def Let_def
      split: prod.splits sum.splits option.splits)

lemma call_keeps_targetAlive:
  "targetAlive (runCalls (consoleMethod J ocv) [c] w) = targetAlive w"
proof -
  obtain name args now where c: "c = (name, args, now)" by (cases c)
  show ?thesis
  proof (cases "installedBody J name")
    case None
    then show ?thesis by (simp add: c consoleMethod_eq)
  next
    case (Some body)
    then show ?thesis by (simp add: c consoleMethod_eq forward_frame bodyHost_frame)
  qed
qed

lemma spared_call_keeps_count:
  assumes "sparesLabel J L c"
  shows "countMap (consoleState (runCalls (consoleMethod J ocv) [c] w)) L = countMap (consoleState w) L"
proof -
  obtain name args now where c: "c = (name, args, now)" by (cases c)
  show ?thesis
  proof (cases "installedBody J name")
    case None
    then show ?thesis by (simp add: c consoleMethod_eq)
  next
    case (Some body)
    have b: "countMap (consoleState (snd (body args now w))) L = countMap (consoleState w) L"
      using installedBody_cases [OF Some] assms
      by (elim disjE conjE exE)
         (simp_all add: c sparesLabel_def body_countMap_same count_body_other_label)
    from Some show ?thesis
      by (simp add: c consoleMethod_eq forward_frame bodyHost_frame b)
  qed
qed

lemma count_mixed_run:
  assumes "targetAlive w" and "moved_from_holds_target J"
    and "\<forall>c\<in>set pre. countsLabel J L c \<or> sparesLabel J L c"
  shows "targetAlive (runCalls (consoleMethod J ocv) pre w) \<and>
         countMap (consoleState (runCalls (consoleMethod J ocv) pre w)) L =
           (if filter (countsLabel J L) pre = [] then countMap (consoleState w) L
            else Some ((case countMap (consoleState w) L of None \<Rightarrow> 0 | Some c \<Rightarrow> c)
                         + of_nat (length (filter (countsLabel J L) pre))))"
  using assms(3)
proof (induction pre rule: rev_induct)
  case Nil
  show ?case using assms(1) by simp
next
  case (snoc c pre)
  let ?C = "consoleMethod J ocv"
  define w1 where "w1 = runCalls ?C pre w"
  from snoc have ih: "targetAlive w1"
    "countMap (consoleState w1) L =
           (if filter (countsLabel J L) pre = [] then countMap (consoleState w) L
            else Some ((case countMap (consoleState w) L of None \<Rightarrow> 0 | Some c \<Rightarrow> c)
                         + of_nat (length (filter (countsLabel J L) pre))))"
    by (simp_all add: w1_def)
  have run: "runCalls ?C (pre @ [c]) w = runCalls ?C [c] w1"
    by (simp only: runCalls_append w1_def)
  show ?case
  proof (cases "countsLabel J L c")
    case True
    obtain args now where c: "c = (''count'', args, now)" and l: "labelIs J args L"
      using True by (cases c) (auto simp: countsLabel_def)
    note one = runCalls_one [OF installedBody_simps(1) ih(1) bodyHeld_always [OF assms(2)], of ocv args now]
    have lab: "fst (resolve_label J args (runtime w1)) = Inr L" by (rule labelIsD [OF l])
    have step: "runCalls ?C (pre @ [c]) w = runCalls ?C [(''count'', args, now)] w1"
      using run by (simp only: c)
    have f: "filter (countsLabel J L) (pre @ [c]) = filter (countsLabel J L) pre @ [c]"
      using True by simp
    show ?thesis
      unfolding step f
      by (simp del: runCalls.simps add: one count_body_effect [OF lab] ih(2) split: option.splits)
  next
    case False
    with snoc.prems have s: "sparesLabel J L c" by simp
    from False show ?thesis
      unfolding run
      by (simp del: runCalls.simps add: call_keeps_targetAlive spared_call_keeps_count [OF s] ih)
  qed
qed

text \<open>
  Claim C1, as the code has it. Take a session that is alive, no count recorded for
  \<open>L\<close>, and a standard library that leaves a function that was moved from holding its
  target, so that the body of a method runs at every call of it. In a run of calls to
  the console in which every call either counts under \<open>L\<close> or spares the count of \<open>L\<close>,
  the \<open>k\<close>-th call to \<open>count\<close> with the label \<open>L\<close> makes the delegate receive exactly one
  message more, of kind Count, with the single string \<open>L: k\<close> as its body, for \<open>k\<close> up to
  \<open>INT_MAX = 2147483647\<close>: the counter is a C++ \<open>int\<close>. Calling \<open>count\<close> with no argument,
  or with \<open>undefined\<close> as the first, emits the same message and leaves the same state as
  calling it with the string \<open>default\<close> (whose string conversion is itself).
\<close>

theorem count_kth_call:
  assumes "targetAlive w" and "moved_from_holds_target J"
    and "countMap (consoleState w) L = None"
    and "\<forall>c\<in>set pre. countsLabel J L c \<or> sparesLabel J L c"
    and "Suc (length (filter (countsLabel J L) pre)) = k" and "k \<le> 2147483647"
    and "labelIs J args L"
  shows "delegateMessages (runCalls (consoleMethod J ocv) (pre @ [(''count'', args, now)]) w) =
           delegateMessages (runCalls (consoleMethod J ocv) pre w) @
             [\<lparr>msgTimestamp = now, msgType = kCount,
               msgArgs = [JSString (L @ '': '' @ to_string_int (int k))]\<rparr>]
         \<and> (\<forall>args now u.
               (args = [] \<or> (\<exists>rest. args = JSUndefined # rest)) \<and>
               labelIs J [JSString ''default''] ''default'' \<longrightarrow>
               (\<exists>r1 u1 r2 u2.
                  callConsole J ocv ''count'' args now u = Some (r1, u1) \<and>
                  callConsole J ocv ''count'' [JSString ''default''] now u = Some (r2, u2) \<and>
                  delegateMessages u1 = delegateMessages u2 \<and> consoleState u1 = consoleState u2))"
proof (intro conjI allI impI)
  let ?C = "consoleMethod J ocv"
  define w1 where "w1 = runCalls ?C pre w"
  from count_mixed_run [OF assms(1,2,4), of ocv] assms(3)
  have a: "targetAlive w1"
    and m: "countMap (consoleState w1) L =
           (if filter (countsLabel J L) pre = [] then None
            else Some (of_nat (length (filter (countsLabel J L) pre))))"
    by (simp_all add: w1_def)
  have n: "(case countMap (consoleState w1) L of None \<Rightarrow> 1 | Some c \<Rightarrow> c + 1) = (of_nat k :: 32 word)"
    using assms(5) by (auto simp: m)
  have lab: "fst (resolve_label J args (runtime w1)) = Inr L" by (rule labelIsD [OF assms(7)])
  note one = runCalls_one [OF installedBody_simps(1) a bodyHeld_always [OF assms(2)], of ocv args now]
  have run: "runCalls ?C (pre @ [(''count'', args, now)]) w = runCalls ?C [(''count'', args, now)] w1"
    by (simp only: runCalls_append w1_def)
  show "delegateMessages (runCalls ?C (pre @ [(''count'', args, now)]) w) =
           delegateMessages (runCalls ?C pre w) @
             [\<lparr>msgTimestamp = now, msgType = kCount,
               msgArgs = [JSString (L @ '': '' @ to_string_int (int k))]\<rparr>]"
    unfolding run
    by (simp del: runCalls.simps add: one count_body_effect [OF lab] n sint_small [OF assms(6)])
       (simp add: w1_def)
next
  fix args :: "jsvalue list" and now and u :: "'a world"
  assume a: "(args = [] \<or> (\<exists>rest. args = JSUndefined # rest)) \<and>
               labelIs J [JSString ''default''] ''default''"
  then have l: "labelIs J args ''default''"
    by (auto simp: labelIs_no_args labelIs_undefined)
  from a have d: "labelIs J [JSString ''default''] ''default''" by simp
  show "\<exists>r1 u1 r2 u2.
                  callConsole J ocv ''count'' args now u = Some (r1, u1) \<and>
                  callConsole J ocv ''count'' [JSString ''default''] now u = Some (r2, u2) \<and>
                  delegateMessages u1 = delegateMessages u2 \<and> consoleState u1 = consoleState u2"
    by (rule count_default_same [OF l d])
qed

theorem count_kth_call_witness:
  "delegateMessages
     (runCalls (consoleMethod sampleJsi (JSObject 1))
        [(''count'', [JSString ''a''], 1), (''count'', [JSString ''b''], 2),
         (''log'', [JSString ''a''], 3), (''countReset'', [JSString ''b''], 4),
         (''count'', [JSString ''a'', JSNull], 5), (''count'', [JSString ''b''], 6),
         (''count'', [JSString ''a''], 7)] sampleWorld) =
     [\<lparr>msgTimestamp = 1, msgType = kCount, msgArgs = [JSString ''a: 1'']\<rparr>,
      \<lparr>msgTimestamp = 2, msgType = kCount, msgArgs = [JSString ''b: 1'']\<rparr>,
      \<lparr>msgTimestamp = 3, msgType = kLog, msgArgs = [JSString ''a'']\<rparr>,
      \<lparr>msgTimestamp = 5, msgType = kCount, msgArgs = [JSString ''a: 2'']\<rparr>,
      \<lparr>msgTimestamp = 6, msgType = kCount, msgArgs = [JSString ''b: 1'']\<rparr>,
      \<lparr>msgTimestamp = 7, msgType = kCount, msgArgs = [JSString ''a: 3'']\<rparr>]"
proof -
  let ?pre = "[(''count'', [JSString ''a''], 1 :: double), (''count'', [JSString ''b''], 2),
         (''log'', [JSString ''a''], 3), (''countReset'', [JSString ''b''], 4),
         (''count'', [JSString ''a'', JSNull], 5), (''count'', [JSString ''b''], 6)]"
  have h: "targetAlive sampleWorld" "moved_from_holds_target sampleJsi"
    "countMap (consoleState sampleWorld) ''a'' = None"
    "\<forall>c\<in>set ?pre. countsLabel sampleJsi ''a'' c \<or> sparesLabel sampleJsi ''a'' c"
    "Suc (length (filter (countsLabel sampleJsi ''a'') ?pre)) = 3"
    "(3::nat) \<le> 2147483647"
    "labelIs sampleJsi [JSString ''a''] ''a''"
    by (simp_all add: sampleWorld_def freshState_def labelIs_def resolve_label_def sampleJsi_def
        countsLabel_def sparesLabel_def)
  have p: "delegateMessages (runCalls (consoleMethod sampleJsi (JSObject 1)) ?pre sampleWorld) =
     [\<lparr>msgTimestamp = 1, msgType = kCount, msgArgs = [JSString ''a: 1'']\<rparr>,
      \<lparr>msgTimestamp = 2, msgType = kCount, msgArgs = [JSString ''b: 1'']\<rparr>,
      \<lparr>msgTimestamp = 3, msgType = kLog, msgArgs = [JSString ''a'']\<rparr>,
      \<lparr>msgTimestamp = 5, msgType = kCount, msgArgs = [JSString ''a: 2'']\<rparr>,
      \<lparr>msgTimestamp = 6, msgType = kCount, msgArgs = [JSString ''b: 1'']\<rparr>]"
    by (simp add: consoleMethod_eq sample_eval to_string_int_def)
  from count_kth_call [OF h, of "JSObject 1" 7] show ?thesis
    by (simp only: p append_Cons append_Nil) (simp add: to_string_int_def)
qed

text \<open>
  Beyond \<open>INT_MAX\<close> the claim of C1 fails: the 2147483648-th call cannot report
  2147483648, which no \<open>int\<close> holds; on the wrapped counter it reports -2147483648.
\<close>

theorem count_overflow_counterexample:
  "msgArgs (delegateMessages
      (runCalls (consoleMethod sampleJsi JSUndefined) (replicate 2147483648 (''count'', [], 0)) sampleWorld)
        ! 2147483647) = [JSString ''default: -2147483648'']
   \<and> msgArgs (delegateMessages
      (runCalls (consoleMethod sampleJsi JSUndefined) (replicate 2147483648 (''count'', [], 0)) sampleWorld)
        ! 2147483647) \<noteq> [JSString ''default: 2147483648'']"
proof -
  let ?calls = "replicate 2147483648 ([] :: jsvalue list, 0 :: double)"
  let ?F = "\<lambda>i. \<lparr>msgTimestamp = snd (?calls ! i), msgType = kCount,
                        msgArgs = [JSString (''default'' @ '': '' @ to_string_int (sint
                          (0 + of_nat (Suc i) :: 32 word)))]\<rparr>"
  have a: "targetAlive sampleWorld" and e: "countMap (consoleState sampleWorld) ''default'' = None"
    and d: "delegateMessages sampleWorld = []"
    by (simp_all add: sampleWorld_def freshState_def)
  have l: "\<forall>c\<in>set ?calls. labelIs sampleJsi (fst c) ''default''"
    by (simp add: labelIs_no_args)
  have m: "map (\<lambda>(args, now). (''count'', args, now)) ?calls = replicate 2147483648 (''count'', [], 0)"
    by (simp only: map_replicate prod.case)
  have k: "moved_from_holds_target sampleJsi" by (simp add: sampleJsi_def)
  from count_run [OF a l k, of JSUndefined]
  have "delegateMessages
      (runCalls (consoleMethod sampleJsi JSUndefined) (replicate 2147483648 (''count'', [], 0)) sampleWorld)
      = map ?F [0..<length ?calls]"
    by (simp only: m e d option.case append_Nil)
  then have "delegateMessages
      (runCalls (consoleMethod sampleJsi JSUndefined) (replicate 2147483648 (''count'', [], 0)) sampleWorld)
        ! 2147483647 = ?F (0 + 2147483647)"
    by (simp only: length_replicate) (rule nth_map_upt, simp)
  then show ?thesis
    by (simp add: to_string_int_def)
qed

section \<open>countReset\<close>

text \<open>
  Claim C4, as the code has it. With the session alive and the closure of \<open>countReset\<close>
  still holding its body (as it does at the first call of the method, and at a later
  one where a function that was moved from holds its target), a call to \<open>countReset\<close>
  whose arguments give the label \<open>L\<close>: when \<open>countMap\<close> has no entry for \<open>L\<close>, the delegate
  receives exactly one message, of kind Warning, with the single string
  \<open>Count for 'L' does not exist\<close>, and the state is unchanged, so there is still no entry
  for \<open>L\<close>; when there is an entry, it is set to 0, nothing else changes and no message
  is emitted.
\<close>

theorem countReset_call:
  assumes "targetAlive w" and "bodyHeld J ''countReset'' w"
    and "fst (resolve_label J args (runtime w)) = Inr L"
  shows "\<exists>r w'. callConsole J ocv ''countReset'' args now w = Some (r, w') \<and>
     (case countMap (consoleState w) L of
        None \<Rightarrow>
          delegateMessages w' = delegateMessages w @
            [\<lparr>msgTimestamp = now, msgType = kWarning,
              msgArgs = [JSString (''Count for '' @ [CHR 0x27] @ L @ [CHR 0x27] @ '' does not exist'')]\<rparr>] \<and>
          consoleState w' = consoleState w \<and>
          countMap (consoleState w') L = None
      | Some c \<Rightarrow>
          delegateMessages w' = delegateMessages w \<and>
          countMap (consoleState w') = (countMap (consoleState w))(L \<mapsto> 0) \<and>
          timerTable (consoleState w') = timerTable (consoleState w))"
proof -
  from call_alive [OF installedBody_simps(2) assms(1,2), of ocv args now]
  obtain r w' where c: "callConsole J ocv ''countReset'' args now w = Some (r, w')"
    and m: "delegateMessages w' = delegateMessages (snd (countReset_body J args now w))"
    and s: "consoleState w' = consoleState (snd (countReset_body J args now w))"
    by blast
  show ?thesis
    by (rule exI [of _ r], rule exI [of _ w'])
       (simp add: c m s countReset_body_effect [OF assms(3)] split: option.splits)
qed

theorem countReset_call_witness:
  "callConsole sampleJsi (JSObject 1) ''countReset'' [JSString ''a''] 7 sampleWorld =
     Some (Inr JSUndefined,
           sampleWorld\<lparr>delegateMessages :=
             [\<lparr>msgTimestamp = 7, msgType = kWarning,
               msgArgs = [JSString (''Count for '' @ [CHR 0x27] @ ''a'' @ [CHR 0x27] @ '' does not exist'')]\<rparr>],
             executorTasks := 1, movedFrom := {''countReset''}\<rparr>)"
proof -
  have a: "targetAlive sampleWorld" and h: "bodyHeld sampleJsi ''countReset'' sampleWorld"
    by (simp_all add: sampleWorld_def bodyHeld_def)
  have l: "fst (resolve_label sampleJsi [JSString ''a''] (runtime sampleWorld)) = Inr ''a''"
    by (simp add: resolve_label_def sampleJsi_def)
  from countReset_call [OF a h l, of "JSObject 1" 7]
  show ?thesis
    by (simp add: sample_eval)
qed

text \<open>
  The claim of C4 that \<open>countReset\<close> on a label without an entry emits a Warning fails
  once the session is gone: the body is skipped, and the delegate receives nothing.
\<close>

theorem countReset_dead_session_counterexample:
  "callConsole sampleJsi JSNull ''countReset'' [JSString ''a''] 7
       (sampleWorld\<lparr>targetAlive := False\<rparr>) =
     Some (Inr JSUndefined,
           sampleWorld\<lparr>targetAlive := False, delegateMessages := [],
             movedFrom := {''countReset''}\<rparr>)"
  by (simp add: sample_eval)

section \<open>assert\<close>

text \<open>
  Claim C2, as the code has it. With the session alive and the closure of \<open>assert\<close>
  still holding its body (as it does at the first call of the method, and at a later
  one where a function that was moved from holds its target), a call to \<open>assert\<close>: when
  argument 0 exists and
  \<open>toBoolean\<close> holds of it, no message is emitted; otherwise exactly one message of kind
  Assert is emitted, whose body is made from the arguments after the first: when there
  are none, the single string \<open>Assertion failed\<close>; when the first of them is a string
  \<open>s\<close>, that element becomes \<open>Assertion failed: s\<close>; otherwise \<open>Assertion failed\<close> is put in
  front of them. \<open>toBoolean\<close> is false on undefined and null, the boolean itself, false
  on a number iff it is zero or NaN, true on symbols and objects, false on a string iff
  it is empty.
\<close>

theorem assert_call:
  assumes "targetAlive w" and "bodyHeld J ''assert'' w"
  shows "(\<exists>r w'. callConsole J ocv ''assert'' args now w = Some (r, w') \<and>
           consoleState w' = consoleState w \<and>
           delegateMessages w' =
             (case args of
                [] \<Rightarrow> delegateMessages w @
                        [\<lparr>msgTimestamp = now, msgType = kAssert,
                          msgArgs = [JSString ''Assertion failed'']\<rparr>]
              | a # rest \<Rightarrow>
                  if toBoolean a then delegateMessages w
                  else delegateMessages w @
                         [\<lparr>msgTimestamp = now, msgType = kAssert,
                           msgArgs = (case rest of
                                        [] \<Rightarrow> [JSString ''Assertion failed'']
                                      | JSString s # ys \<Rightarrow>
                                          JSString (''Assertion failed: '' @ s) # ys
                                      | x # ys \<Rightarrow> JSString ''Assertion failed'' # x # ys)\<rparr>]))
       \<and> (\<forall>v. toBoolean v =
                (case v of
                   JSUndefined \<Rightarrow> False
                 | JSNull \<Rightarrow> False
                 | JSBool b \<Rightarrow> b
                 | JSNumber m \<Rightarrow> \<not> (double_eq_zero m \<or> std_isnan m)
                 | JSSymbol _ \<Rightarrow> True
                 | JSString s \<Rightarrow> s \<noteq> []
                 | JSObject _ \<Rightarrow> True))"
proof -
  from call_alive [OF installedBody_simps(6) assms, of ocv args now]
  obtain r w' where c: "callConsole J ocv ''assert'' args now w = Some (r, w')"
    and m: "delegateMessages w' = delegateMessages (snd (assert_body args now w))"
    and s: "consoleState w' = consoleState (snd (assert_body args now w))"
    by blast
  have "\<exists>r w'. callConsole J ocv ''assert'' args now w = Some (r, w') \<and>
           consoleState w' = consoleState w \<and>
           delegateMessages w' = delegateMessages (snd (assert_body args now w))"
    by (rule exI [of _ r], rule exI [of _ w']) (simp add: c m s assert_body_effect(1))
  moreover have "toBoolean v =
                (case v of
                   JSUndefined \<Rightarrow> False
                 | JSNull \<Rightarrow> False
                 | JSBool b \<Rightarrow> b
                 | JSNumber m \<Rightarrow> \<not> (double_eq_zero m \<or> std_isnan m)
                 | JSSymbol _ \<Rightarrow> True
                 | JSString s \<Rightarrow> s \<noteq> []
                 | JSObject _ \<Rightarrow> True)" for v
    by (cases v) simp_all
  ultimately show ?thesis
    by (simp only: assert_body_effect(2) simp_thms)
qed

theorem assert_call_witness:
  "callConsole sampleJsi (JSObject 1) ''assert'' [JSNumber 0, JSString ''no'', JSNull] 7 sampleWorld =
     Some (Inr JSUndefined,
           sampleWorld\<lparr>delegateMessages :=
             [\<lparr>msgTimestamp = 7, msgType = kAssert,
               msgArgs = [JSString ''Assertion failed: no'', JSNull]\<rparr>],
             executorTasks := 1, movedFrom := {''assert''}\<rparr>)
   \<and> callConsole sampleJsi (JSObject 1) ''assert'' [JSString ''x'', JSString ''no''] 7 sampleWorld =
     Some (Inr JSUndefined, sampleWorld\<lparr>executorTasks := 1, movedFrom := {''assert''}\<rparr>)"
proof -
  have a: "targetAlive sampleWorld" and h: "bodyHeld sampleJsi ''assert'' sampleWorld"
    by (simp_all add: sampleWorld_def bodyHeld_def)
  from assert_call [OF a h, of "JSObject 1" "[JSNumber 0, JSString ''no'', JSNull]" 7]
       assert_call [OF a h, of "JSObject 1" "[JSString ''x'', JSString ''no'']" 7]
  show ?thesis
    by (simp add: sample_eval double_eq_zero_def)
qed

text \<open>
  The claim of C2 that a call to \<open>assert\<close> whose argument 0 is not truthy emits a message
  fails once the session is gone: the body is skipped, and the delegate receives
  nothing.
\<close>

theorem assert_dead_session_counterexample:
  "callConsole sampleJsi JSNull ''assert'' [JSBool False, JSString ''no''] 7
       (sampleWorld\<lparr>targetAlive := False\<rparr>) =
     Some (Inr JSUndefined,
           sampleWorld\<lparr>targetAlive := False, delegateMessages := [],
             movedFrom := {''assert''}\<rparr>)"
  by (simp add: sample_eval)

section \<open>time, timeEnd and timeLog\<close>

text \<open>
  Where the body of a method runs at every call of it (the session alive, a standard
  library that leaves a function that was moved from holding its target), and no timer
  is named \<open>L\<close>: \<open>time(L)\<close> at \<open>t0\<close> emits nothing and records \<open>t0\<close>; \<open>timeEnd(L)\<close> at \<open>t1\<close>
  then emits exactly one message, of kind TimeEnd, with the single string \<open>L: d ms\<close>,
  where \<open>d\<close> is \<open>std::to_string\<close> of the double \<open>t1 - t0\<close>, and removes \<open>L\<close> from the timer
  table; a second \<open>timeEnd(L)\<close> emits the Warning \<open>Timer 'L' does not exist\<close>.
\<close>

lemma time_then_timeEnd:
  assumes "targetAlive w" and "timerTable (consoleState w) L = None"
    and "labelIs J a0 L" and "labelIs J a1 L" and "labelIs J a2 L"
    and "moved_from_holds_target J"
  shows "delegateMessages (runCalls (consoleMethod J ocv) [(''time'', a0, t0)] w) = delegateMessages w
       \<and> timerTable (consoleState (runCalls (consoleMethod J ocv) [(''time'', a0, t0)] w)) L = Some t0
       \<and> delegateMessages (runCalls (consoleMethod J ocv) [(''time'', a0, t0), (''timeEnd'', a1, t1)] w) =
           delegateMessages w @
             [\<lparr>msgTimestamp = t1, msgType = kTimeEnd,
               msgArgs = [JSString (L @ '': '' @ to_string_double J (double_minus J t1 t0) @ '' ms'')]\<rparr>]
       \<and> timerTable (consoleState
             (runCalls (consoleMethod J ocv) [(''time'', a0, t0), (''timeEnd'', a1, t1)] w)) L = None
       \<and> delegateMessages
             (runCalls (consoleMethod J ocv)
                [(''time'', a0, t0), (''timeEnd'', a1, t1), (''timeEnd'', a2, t2)] w) =
           delegateMessages w @
             [\<lparr>msgTimestamp = t1, msgType = kTimeEnd,
               msgArgs = [JSString (L @ '': '' @ to_string_double J (double_minus J t1 t0) @ '' ms'')]\<rparr>,
              \<lparr>msgTimestamp = t2, msgType = kWarning,
               msgArgs = [JSString (''Timer '' @ [CHR 0x27] @ L @ [CHR 0x27] @ '' does not exist'')]\<rparr>]"
proof -
  let ?C = "consoleMethod J ocv"
  let ?w1 = "runCalls ?C [(''time'', a0, t0)] w"
  let ?w2 = "runCalls ?C [(''timeEnd'', a1, t1)] ?w1"
  let ?w3 = "runCalls ?C [(''timeEnd'', a2, t2)] ?w2"
  note held = bodyHeld_always [OF assms(6)]
  note s1 = runCalls_one [OF installedBody_simps(3) assms(1) held, of ocv a0 t0]
  note s2 = runCalls_one [OF installedBody_simps(4) s1(1) held, of ocv a1 t1]
  note s3 = runCalls_one [OF installedBody_simps(4) s2(1) held, of ocv a2 t2]
  have r2: "runCalls ?C [(''time'', a0, t0), (''timeEnd'', a1, t1)] w = ?w2"
    using runCalls_append [of ?C "[(''time'', a0, t0)]" "[(''timeEnd'', a1, t1)]" w] by simp
  have r3: "runCalls ?C [(''time'', a0, t0), (''timeEnd'', a1, t1), (''timeEnd'', a2, t2)] w = ?w3"
    using runCalls_append [of ?C "[(''time'', a0, t0), (''timeEnd'', a1, t1)]" "[(''timeEnd'', a2, t2)]" w]
    by (simp only: r2 append_Cons append_Nil)
  have m1: "delegateMessages ?w1 = delegateMessages w"
    and c1: "consoleState ?w1 = (consoleState w)\<lparr>timerTable := (timerTable (consoleState w))(L \<mapsto> t0)\<rparr>"
    using assms(2) by (simp_all del: runCalls.simps add: s1 time_body_effect [OF labelIsD [OF assms(3)]])
  have m2: "delegateMessages ?w2 = delegateMessages w @
             [\<lparr>msgTimestamp = t1, msgType = kTimeEnd,
               msgArgs = [JSString (L @ '': '' @ to_string_double J (double_minus J t1 t0) @ '' ms'')]\<rparr>]"
    and c2: "timerTable (consoleState ?w2) L = None"
    by (simp_all del: runCalls.simps add: s2 timeEnd_body_effect [OF labelIsD [OF assms(4)]] m1 c1)
  have m3: "delegateMessages ?w3 = delegateMessages ?w2 @
              [\<lparr>msgTimestamp = t2, msgType = kWarning,
               msgArgs = [JSString (''Timer '' @ [CHR 0x27] @ L @ [CHR 0x27] @ '' does not exist'')]\<rparr>]"
    by (simp del: runCalls.simps add: s3 timeEnd_body_effect [OF labelIsD [OF assms(5)]] c2)
  show ?thesis
    unfolding r2 r3 by (simp del: runCalls.simps add: m1 c1 m2 c2 m3)
qed

lemma body_timerTable_same:
  "timerTable (consoleState (snd (count_body J args now w))) = timerTable (consoleState w)"
  "timerTable (consoleState (snd (countReset_body J args now w))) = timerTable (consoleState w)"
  "timerTable (consoleState (snd (timeLog_body J args now w))) = timerTable (consoleState w)"
  "timerTable (consoleState (snd (assert_body args now w))) = timerTable (consoleState w)"
  "timerTable (consoleState (snd (forwarding_body type args now w))) = timerTable (consoleState w)"
  by (simp_all add: count_body_def countReset_body_def timeLog_body_def assert_body_def
      forwarding_body_def addConsoleMessage_def Let_def split: prod.splits sum.splits option.splits)

lemma time_body_keeps:
  "timerTable (consoleState w) l = Some s \<Longrightarrow>
     timerTable (consoleState (snd (time_body J args now w))) l = Some s"
  by (auto simp: time_body_def addConsoleMessage_def Let_def split: prod.splits sum.splits option.splits)

lemma timeEnd_body_creates_nothing:
  "timerTable (consoleState (snd (timeEnd_body J args now w))) l = Some s \<Longrightarrow>
     timerTable (consoleState w) l = Some s"
  by (auto simp: timeEnd_body_def addConsoleMessage_def Let_def
      split: prod.splits sum.splits option.splits if_splits)

lemma timeLog_run:
  assumes "targetAlive u" and "timerTable (consoleState u) L = Some s"
    and "\<forall>c\<in>set calls. labelIs J (fst c) L"
    and "moved_from_holds_target J"
  shows "targetAlive (runCalls (consoleMethod J ocv) (map (\<lambda>(args, now). (''timeLog'', args, now)) calls) u) \<and>
         consoleState (runCalls (consoleMethod J ocv) (map (\<lambda>(args, now). (''timeLog'', args, now)) calls) u) =
           consoleState u \<and>
         delegateMessages (runCalls (consoleMethod J ocv) (map (\<lambda>(args, now). (''timeLog'', args, now)) calls) u) =
           delegateMessages u @
             map (\<lambda>(args, now). \<lparr>msgTimestamp = now, msgType = kLog,
                    msgArgs = JSString (L @ '': '' @ to_string_double J (double_minus J now s) @ '' ms'')
                              # drop 1 args\<rparr>) calls"
  using assms(3)
proof (induction calls rule: rev_induct)
  case Nil
  show ?case using assms(1) by simp
next
  case (snoc c calls)
  obtain args now where c: "c = (args, now)" by (cases c)
  let ?C = "consoleMethod J ocv"
  define w1 where "w1 = runCalls ?C (map (\<lambda>(args, now). (''timeLog'', args, now)) calls) u"
  from snoc have ih: "targetAlive w1" "consoleState w1 = consoleState u"
    "delegateMessages w1 = delegateMessages u @
             map (\<lambda>(args, now). \<lparr>msgTimestamp = now, msgType = kLog,
                    msgArgs = JSString (L @ '': '' @ to_string_double J (double_minus J now s) @ '' ms'')
                              # drop 1 args\<rparr>) calls"
    by (simp_all add: w1_def)
  from snoc.prems c have lab: "fst (resolve_label J args (runtime w1)) = Inr L"
    by (simp add: labelIsD)
  have run: "runCalls ?C (map (\<lambda>(args, now). (''timeLog'', args, now)) (calls @ [c])) u =
      runCalls ?C [(''timeLog'', args, now)] w1"
    by (simp add: runCalls_append c w1_def)
  note one = runCalls_one [OF installedBody_simps(5) ih(1) bodyHeld_always [OF assms(4)], of ocv args now]
  show ?case
    unfolding run
    by (simp del: runCalls.simps add: one timeLog_body_effect [OF lab] ih(2,3) assms(2) c)
qed

lemma call_creates_no_timer:
  assumes "callConsole J ocv name args now w = Some (r, w')" and "name \<noteq> ''time''"
    and "timerTable (consoleState w') l = Some s"
  shows "timerTable (consoleState w) l = Some s"
proof -
  from callConsole_SomeD [OF assms(1)] obtain body where b: "installedBody J name = Some body"
    and st: "consoleState w' =
      (if targetAlive w \<and> bodyHeld J name w then consoleState (snd (body args now w)) else consoleState w)"
    by blast
  show ?thesis
  proof (cases "targetAlive w \<and> bodyHeld J name w")
    case False
    with st assms(3) show ?thesis by simp
  next
    case True
    with st assms(3) have t: "timerTable (consoleState (snd (body args now w))) l = Some s" by simp
    from installedBody_cases [OF b] assms(2) t show ?thesis
      by (auto simp: body_timerTable_same dest: timeEnd_body_creates_nothing)
  qed
qed

lemma call_removes_no_timer:
  assumes "callConsole J ocv name args now w = Some (r, w')" and "name \<noteq> ''timeEnd''"
    and "timerTable (consoleState w) l = Some s"
  shows "timerTable (consoleState w') l = Some s"
proof -
  from callConsole_SomeD [OF assms(1)] obtain body where b: "installedBody J name = Some body"
    and st: "consoleState w' =
      (if targetAlive w \<and> bodyHeld J name w then consoleState (snd (body args now w)) else consoleState w)"
    by blast
  show ?thesis
  proof (cases "targetAlive w \<and> bodyHeld J name w")
    case False
    with st assms(3) show ?thesis by simp
  next
    case True
    with st have t: "consoleState w' = consoleState (snd (body args now w))" by simp
    from installedBody_cases [OF b] assms(2,3) show ?thesis
      unfolding t by (auto simp: body_timerTable_same intro: time_body_keeps)
  qed
qed

lemma timer_call_effect:
  assumes "callConsole J ocv name args now w = Some (r, w')" and "targetAlive w"
    and "bodyHeld J name w"
    and "fst (resolve_label J args (runtime w)) = Inr L"
  shows "name = ''time'' \<Longrightarrow>
           (case timerTable (consoleState w) L of
              Some s \<Rightarrow>
                delegateMessages w' = delegateMessages w @
                  [\<lparr>msgTimestamp = now, msgType = kWarning,
                    msgArgs = [JSString (''Timer '' @ [CHR 0x27] @ L @ [CHR 0x27] @ '' already exists'')]\<rparr>] \<and>
                consoleState w' = consoleState w
            | None \<Rightarrow>
                delegateMessages w' = delegateMessages w \<and>
                timerTable (consoleState w') = (timerTable (consoleState w))(L \<mapsto> now))"
    and "name = ''timeEnd'' \<Longrightarrow>
           (case timerTable (consoleState w) L of
              Some s \<Rightarrow>
                delegateMessages w' = delegateMessages w @
                  [\<lparr>msgTimestamp = now, msgType = kTimeEnd,
                    msgArgs = [JSString (L @ '': '' @ to_string_double J (double_minus J now s) @ '' ms'')]\<rparr>] \<and>
                timerTable (consoleState w') = (timerTable (consoleState w))(L := None)
            | None \<Rightarrow> consoleState w' = consoleState w)"
    and "name = ''timeLog'' \<Longrightarrow>
           consoleState w' = consoleState w \<and>
           (case timerTable (consoleState w) L of
              Some s \<Rightarrow>
                delegateMessages w' = delegateMessages w @
                  [\<lparr>msgTimestamp = now, msgType = kLog,
                    msgArgs = JSString (L @ '': '' @ to_string_double J (double_minus J now s) @ '' ms'')
                              # drop 1 args\<rparr>]
            | None \<Rightarrow> True)"
proof -
  from callConsole_SomeD [OF assms(1)] assms(2,3) obtain body where b: "installedBody J name = Some body"
    and st: "consoleState w' = consoleState (snd (body args now w))"
    and ms: "delegateMessages w' = delegateMessages (snd (body args now w))"
    by auto
  show "name = ''time'' \<Longrightarrow>
           (case timerTable (consoleState w) L of
              Some s \<Rightarrow>
                delegateMessages w' = delegateMessages w @
                  [\<lparr>msgTimestamp = now, msgType = kWarning,
                    msgArgs = [JSString (''Timer '' @ [CHR 0x27] @ L @ [CHR 0x27] @ '' already exists'')]\<rparr>] \<and>
                consoleState w' = consoleState w
            | None \<Rightarrow>
                delegateMessages w' = delegateMessages w \<and>
                timerTable (consoleState w') = (timerTable (consoleState w))(L \<mapsto> now))"
    using b by (auto simp: installedBody_simps st ms time_body_effect [OF assms(4)] split: option.splits)
  show "name = ''timeEnd'' \<Longrightarrow>
           (case timerTable (consoleState w) L of
              Some s \<Rightarrow>
                delegateMessages w' = delegateMessages w @
                  [\<lparr>msgTimestamp = now, msgType = kTimeEnd,
                    msgArgs = [JSString (L @ '': '' @ to_string_double J (double_minus J now s) @ '' ms'')]\<rparr>] \<and>
                timerTable (consoleState w') = (timerTable (consoleState w))(L := None)
            | None \<Rightarrow> consoleState w' = consoleState w)"
    using b by (auto simp: installedBody_simps st ms timeEnd_body_effect [OF assms(4)] split: option.splits)
  show "name = ''timeLog'' \<Longrightarrow>
           consoleState w' = consoleState w \<and>
           (case timerTable (consoleState w) L of
              Some s \<Rightarrow>
                delegateMessages w' = delegateMessages w @
                  [\<lparr>msgTimestamp = now, msgType = kLog,
                    msgArgs = JSString (L @ '': '' @ to_string_double J (double_minus J now s) @ '' ms'')
                              # drop 1 args\<rparr>]
            | None \<Rightarrow> True)"
    using b by (auto simp: installedBody_simps st ms timeLog_body_effect [OF assms(4)] split: option.splits)
qed

text \<open>
  The timer table, call by call. For every call to an installed method: an entry that
  the timer table holds after a call to a method other than \<open>time\<close> was there before, with the same start; an
  entry that was there before a call to a method other than \<open>timeEnd\<close> is still there,
  with the same start. With the session alive, the closure of the method holding its
  body and arguments that name \<open>L\<close>: \<open>time\<close> on a
  label that has an entry emits the Warning \<open>Timer 'L' already exists\<close> and leaves the
  state as it is, and on a label without one records the timestamp without a message;
  \<open>timeEnd\<close> reports the time since the stored start and removes that entry and no
  other; \<open>timeLog\<close> reports the time since the stored start, followed by its further
  arguments, as kind Log, and leaves the state as it is, so that every call in a run of
  \<open>timeLog\<close> calls measures from the same start (where a function that was moved from
  holds its target, so that the method can run again).
\<close>

lemma timer_table_discipline:
  assumes "callConsole J ocv name args now w = Some (r, w')"
  shows "(name \<noteq> ''time'' \<longrightarrow>
            (\<forall>l s. timerTable (consoleState w') l = Some s \<longrightarrow> timerTable (consoleState w) l = Some s))
       \<and> (name \<noteq> ''timeEnd'' \<longrightarrow>
            (\<forall>l s. timerTable (consoleState w) l = Some s \<longrightarrow> timerTable (consoleState w') l = Some s))
       \<and> (name = ''time'' \<and> targetAlive w \<and> bodyHeld J name w \<and>
            fst (resolve_label J args (runtime w)) = Inr L \<longrightarrow>
            (case timerTable (consoleState w) L of
               Some s \<Rightarrow>
                 delegateMessages w' = delegateMessages w @
                   [\<lparr>msgTimestamp = now, msgType = kWarning,
                     msgArgs = [JSString (''Timer '' @ [CHR 0x27] @ L @ [CHR 0x27] @ '' already exists'')]\<rparr>] \<and>
                 consoleState w' = consoleState w
             | None \<Rightarrow>
                 delegateMessages w' = delegateMessages w \<and>
                 timerTable (consoleState w') = (timerTable (consoleState w))(L \<mapsto> now)))
       \<and> (name = ''timeEnd'' \<and> targetAlive w \<and> bodyHeld J name w \<and>
            fst (resolve_label J args (runtime w)) = Inr L \<longrightarrow>
            (case timerTable (consoleState w) L of
               Some s \<Rightarrow>
                 delegateMessages w' = delegateMessages w @
                   [\<lparr>msgTimestamp = now, msgType = kTimeEnd,
                     msgArgs = [JSString (L @ '': '' @ to_string_double J (double_minus J now s) @ '' ms'')]\<rparr>] \<and>
                 timerTable (consoleState w') = (timerTable (consoleState w))(L := None)
             | None \<Rightarrow> consoleState w' = consoleState w))
       \<and> (name = ''timeLog'' \<and> targetAlive w \<and> bodyHeld J name w \<and>
            fst (resolve_label J args (runtime w)) = Inr L \<longrightarrow>
            consoleState w' = consoleState w \<and>
            (case timerTable (consoleState w) L of
               Some s \<Rightarrow>
                 delegateMessages w' = delegateMessages w @
                   [\<lparr>msgTimestamp = now, msgType = kLog,
                     msgArgs = JSString (L @ '': '' @ to_string_double J (double_minus J now s) @ '' ms'')
                               # drop 1 args\<rparr>]
             | None \<Rightarrow> True))
       \<and> (\<forall>calls u s.
             moved_from_holds_target J \<and>
             targetAlive u \<and> timerTable (consoleState u) L = Some s \<and>
             (\<forall>c\<in>set calls. labelIs J (fst c) L) \<longrightarrow>
             consoleState (runCalls (consoleMethod J ocv)
                 (map (\<lambda>(args, now). (''timeLog'', args, now)) calls) u) = consoleState u \<and>
             delegateMessages (runCalls (consoleMethod J ocv)
                 (map (\<lambda>(args, now). (''timeLog'', args, now)) calls) u) =
               delegateMessages u @
                 map (\<lambda>(args, now). \<lparr>msgTimestamp = now, msgType = kLog,
                        msgArgs = JSString (L @ '': '' @ to_string_double J (double_minus J now s) @ '' ms'')
                                  # drop 1 args\<rparr>) calls)"
proof (intro conjI impI allI)
  fix l s
  assume "name \<noteq> ''time''" and "timerTable (consoleState w') l = Some s"
  then show "timerTable (consoleState w) l = Some s"
    by (rule call_creates_no_timer [OF assms])
next
  fix l s
  assume "name \<noteq> ''timeEnd''" and "timerTable (consoleState w) l = Some s"
  then show "timerTable (consoleState w') l = Some s"
    by (rule call_removes_no_timer [OF assms])
next
  assume "name = ''time'' \<and> targetAlive w \<and> bodyHeld J name w \<and>
            fst (resolve_label J args (runtime w)) = Inr L"
  then show "case timerTable (consoleState w) L of
               Some s \<Rightarrow>
                 delegateMessages w' = delegateMessages w @
                   [\<lparr>msgTimestamp = now, msgType = kWarning,
                     msgArgs = [JSString (''Timer '' @ [CHR 0x27] @ L @ [CHR 0x27] @ '' already exists'')]\<rparr>] \<and>
                 consoleState w' = consoleState w
             | None \<Rightarrow>
                 delegateMessages w' = delegateMessages w \<and>
                 timerTable (consoleState w') = (timerTable (consoleState w))(L \<mapsto> now)"
    using timer_call_effect(1) [OF assms] by blast
next
  assume "name = ''timeEnd'' \<and> targetAlive w \<and> bodyHeld J name w \<and>
            fst (resolve_label J args (runtime w)) = Inr L"
  then show "case timerTable (consoleState w) L of
               Some s \<Rightarrow>
                 delegateMessages w' = delegateMessages w @
                   [\<lparr>msgTimestamp = now, msgType = kTimeEnd,
                     msgArgs = [JSString (L @ '': '' @ to_string_double J (double_minus J now s) @ '' ms'')]\<rparr>] \<and>
                 timerTable (consoleState w') = (timerTable (consoleState w))(L := None)
             | None \<Rightarrow> consoleState w' = consoleState w"
    using timer_call_effect(2) [OF assms] by blast
next
  assume a: "name = ''timeLog'' \<and> targetAlive w \<and> bodyHeld J name w \<and>
            fst (resolve_label J args (runtime w)) = Inr L"
  then show "consoleState w' = consoleState w"
    using timer_call_effect(3) [OF assms] by blast
  from a show "case timerTable (consoleState w) L of
               Some s \<Rightarrow>
                 delegateMessages w' = delegateMessages w @
                   [\<lparr>msgTimestamp = now, msgType = kLog,
                     msgArgs = JSString (L @ '': '' @ to_string_double J (double_minus J now s) @ '' ms'')
                               # drop 1 args\<rparr>]
             | None \<Rightarrow> True"
    using timer_call_effect(3) [OF assms] by blast
next
  fix calls :: "(jsvalue list \<times> double) list" and u :: "'a world" and s
  assume a: "moved_from_holds_target J \<and>
             targetAlive u \<and> timerTable (consoleState u) L = Some s \<and>
             (\<forall>c\<in>set calls. labelIs J (fst c) L)"
  then have h: "targetAlive u" "timerTable (consoleState u) L = Some s" "\<forall>c\<in>set calls. labelIs J (fst c) L"
    "moved_from_holds_target J"
    by simp_all
  from timeLog_run [OF h, of ocv]
  show "consoleState (runCalls (consoleMethod J ocv)
                 (map (\<lambda>(args, now). (''timeLog'', args, now)) calls) u) = consoleState u"
    by (rule conjunct1 [OF conjunct2])
  from timeLog_run [OF h, of ocv]
  show "delegateMessages (runCalls (consoleMethod J ocv)
                 (map (\<lambda>(args, now). (''timeLog'', args, now)) calls) u) =
               delegateMessages u @
                 map (\<lambda>(args, now). \<lparr>msgTimestamp = now, msgType = kLog,
                        msgArgs = JSString (L @ '': '' @ to_string_double J (double_minus J now s) @ '' ms'')
                                  # drop 1 args\<rparr>) calls"
    by (rule conjunct2 [OF conjunct2])
qed

section \<open>The forwarding methods\<close>

text \<open>
  Claim C6, as the code has it. With the session alive and the closure of the method
  still holding its body (as it does at the first call of the method, and at a later
  one where a function that was moved from holds its target), a call to any of the
  thirteen methods of \<open>kForwardingConsoleMethods\<close> (clear, debug, dir, dirxml, error, group,
  groupCollapsed, groupEnd, info, log, table, trace, warn) emits exactly one message,
  whose arguments are the call's, in order, and whose kind is the one the table gives
  the method; it leaves \<open>ConsoleState\<close> unchanged and emits nothing else. That one message
  is of kind Warning for \<open>warn\<close>, and for no other of the thirteen.
\<close>

theorem forwarding_method_call:
  assumes "(name, type) \<in> set kForwardingConsoleMethods" and "targetAlive w"
    and "bodyHeld J name w"
  shows "(\<exists>r w'. callConsole J ocv name args now w = Some (r, w') \<and>
            delegateMessages w' =
              delegateMessages w @ [\<lparr>msgTimestamp = now, msgType = type, msgArgs = args\<rparr>] \<and>
            consoleState w' = consoleState w)
         \<and> (type = kWarning \<longleftrightarrow> name = ''warn'')
         \<and> map fst kForwardingConsoleMethods =
             [''clear'', ''debug'', ''dir'', ''dirxml'', ''error'', ''group'', ''groupCollapsed'',
              ''groupEnd'', ''info'', ''log'', ''table'', ''trace'', ''warn'']"
proof (intro conjI)
  from call_alive [OF conjunct1 [OF forwarding_cases [OF assms(1)]] assms(2,3), of ocv args now]
  obtain r w' where c: "callConsole J ocv name args now w = Some (r, w')"
    and m: "delegateMessages w' = delegateMessages (snd (forwarding_body type args now w))"
    and s: "consoleState w' = consoleState (snd (forwarding_body type args now w))"
    by blast
  show "\<exists>r w'. callConsole J ocv name args now w = Some (r, w') \<and>
            delegateMessages w' =
              delegateMessages w @ [\<lparr>msgTimestamp = now, msgType = type, msgArgs = args\<rparr>] \<and>
            consoleState w' = consoleState w"
    by (rule exI [of _ r], rule exI [of _ w']) (simp add: c m s forwarding_body_effect)
  show "type = kWarning \<longleftrightarrow> name = ''warn''"
    using forwarding_cases [OF assms(1), of J] by simp
  show "map fst kForwardingConsoleMethods =
             [''clear'', ''debug'', ''dir'', ''dirxml'', ''error'', ''group'', ''groupCollapsed'',
              ''groupEnd'', ''info'', ''log'', ''table'', ''trace'', ''warn'']"
    by (simp add: kForwardingConsoleMethods_def)
qed

theorem forwarding_method_call_witness:
  "callConsole sampleJsi (JSObject 1) ''log'' [JSString ''a'', JSNumber 0x3FF0000000000000] 7 sampleWorld =
     Some (Inr JSUndefined,
           sampleWorld\<lparr>runtime := [(10, 1, [JSString ''a'', JSNumber 0x3FF0000000000000])],
             delegateMessages :=
               [\<lparr>msgTimestamp = 7, msgType = kLog,
                 msgArgs = [JSString ''a'', JSNumber 0x3FF0000000000000]\<rparr>],
             executorTasks := 1, movedFrom := {''log''}\<rparr>)"
proof -
  have a: "targetAlive sampleWorld" and h: "bodyHeld sampleJsi ''log'' sampleWorld"
    by (simp_all add: sampleWorld_def bodyHeld_def)
  have m: "(''log'', kLog) \<in> set kForwardingConsoleMethods"
    by (simp add: kForwardingConsoleMethods_def)
  from forwarding_method_call [OF m a h, of "JSObject 1" "[JSString ''a'', JSNumber 0x3FF0000000000000]" 7]
  show ?thesis
    by (simp add: sample_eval)
qed

text \<open>The claim of C6 that no message of kind Warning is ever emitted fails on \<open>warn\<close>.\<close>

theorem warn_kind_counterexample:
  "callConsole sampleJsi JSNull ''warn'' [JSString ''x''] 7 sampleWorld =
     Some (Inr JSUndefined,
           sampleWorld\<lparr>delegateMessages :=
             [\<lparr>msgTimestamp = 7, msgType = kWarning, msgArgs = [JSString ''x'']\<rparr>],
             executorTasks := 1, movedFrom := {''warn''}\<rparr>)"
  by (simp add: sample_eval)

section \<open>Forwarding to the original console\<close>

text \<open>
  Claim C7, as the code has it. Every installed method is its body's host function
  wrapped in \<open>forwardToOriginalConsole\<close>, and on every call: the host function of the body
  runs first; when it throws, the error is the outcome of the call and nothing is
  forwarded. Otherwise, when no original console was captured, the call returns what
  the host function returned. When one was captured, its property of the same name is
  read in the runtime the body left: when the read throws, that error is the outcome of
  the call; when the property is no object, or an object that is no function, nothing
  is called and the call returns; when it is a function, it is called with the
  original console as receiver and the call's own arguments, its return value is
  dropped, and when it throws, that error is the outcome of the call.
\<close>

theorem forwarding_contract:
  assumes "consoleMethod J ocv name = Some f"
  shows "\<exists>body. installedBody J name = Some body \<and>
     (case bodyHostFunction J name body args now w of
        (Inl e, w1) \<Rightarrow> f args now w = (Inl e, w1)
      | (Inr v, w1) \<Rightarrow>
          (case capturedConsole ocv of
             None \<Rightarrow> f args now w = (Inr v, w1)
           | Some oc \<Rightarrow>
               (case Object_getProperty J oc name (runtime w1) of
                  (Inl e, rt2) \<Rightarrow> f args now w = (Inl e, w1\<lparr>runtime := rt2\<rparr>)
                | (Inr p, rt2) \<Rightarrow>
                    (case p of
                       JSObject obj \<Rightarrow>
                         if Object_isFunction J obj rt2 then
                           (case Function_callWithThis J obj oc args rt2 of
                              (Inl e, rt3) \<Rightarrow> f args now w = (Inl e, w1\<lparr>runtime := rt3\<rparr>)
                            | (Inr x, rt3) \<Rightarrow> f args now w = (Inr v, w1\<lparr>runtime := rt3\<rparr>))
                         else f args now w = (Inr v, w1\<lparr>runtime := rt2\<rparr>)
                     | _ \<Rightarrow> f args now w = (Inr v, w1\<lparr>runtime := rt2\<rparr>)))))"
proof -
  from consoleMethod_SomeD [OF assms] obtain body where b: "installedBody J name = Some body"
    and f: "f = forwardToOriginalConsole J (capturedConsole ocv) name (bodyHostFunction J name body)"
    by blast
  show ?thesis
    by (rule exI [of _ body])
       (simp add: b f forwardToOriginalConsole_def split: prod.splits sum.splits option.splits jsvalue.splits)
qed

theorem forwarding_contract_witness:
  "callConsole sampleJsi (JSObject 1) ''debug'' [JSString ''a''] 7 sampleWorld =
     Some (Inr JSUndefined,
           sampleWorld\<lparr>delegateMessages :=
               [\<lparr>msgTimestamp = 7, msgType = kDebug, msgArgs = [JSString ''a'']\<rparr>],
             executorTasks := 1, movedFrom := {''debug''}\<rparr>)
   \<and> callConsole sampleJsi (JSObject 1) ''count'' [JSString ''a''] 7 sampleWorld =
     Some (Inr JSUndefined,
           sampleWorld\<lparr>consoleState := \<lparr>countMap = [''a'' \<mapsto> 1], timerTable = Map.empty\<rparr>,
             delegateMessages :=
               [\<lparr>msgTimestamp = 7, msgType = kCount, msgArgs = [JSString ''a: 1'']\<rparr>],
             executorTasks := 1, movedFrom := {''count''}\<rparr>)
   \<and> callConsole sampleJsi (JSObject 1) ''log'' [JSString ''a''] 7 sampleWorld =
     Some (Inr JSUndefined,
           sampleWorld\<lparr>runtime := [(10, 1, [JSString ''a''])],
             delegateMessages :=
               [\<lparr>msgTimestamp = 7, msgType = kLog, msgArgs = [JSString ''a'']\<rparr>],
             executorTasks := 1, movedFrom := {''log''}\<rparr>)"
proof -
  have m: "consoleMethod sampleJsi (JSObject 1) ''log'' =
      Some (forwardToOriginalConsole sampleJsi (Some 1) ''log'' (bodyHostFunction sampleJsi ''log'' (forwarding_body kLog)))"
    by (simp add: consoleMethod_eq installedBody_def kForwardingConsoleMethods_def capturedConsole_def)
  from forwarding_contract [OF m, of "[JSString ''a'']" 7 sampleWorld]
  show ?thesis
    by (simp add: sample_eval to_string_int_def)
qed

text \<open>
  The claim of C7 that no error of the forwarding step reaches the caller fails when the
  original method throws.
\<close>

theorem forwarding_error_counterexample:
  "callConsole sampleJsi (JSObject 1) ''warn'' [JSString ''x''] 7 sampleWorld =
     Some (Inl (JSError (JSString ''boom'')),
           sampleWorld\<lparr>runtime := [(11, 1, [JSString ''x''])],
             delegateMessages :=
               [\<lparr>msgTimestamp = 7, msgType = kWarning, msgArgs = [JSString ''x'']\<rparr>],
             executorTasks := 1, movedFrom := {''warn''}\<rparr>)"
  by (simp add: sample_eval)

section \<open>A session that is gone\<close>

text \<open>
  Claim C8, as the code has it. On a call made when the target can no longer be locked,
  the body is skipped (though the closure has handed it on): no message reaches the
  delegate, the state is untouched, no task is submitted, and the call is the
  forwarding step alone, on the runtime as the call found it. It returns \<open>undefined\<close>
  unless the forwarding step throws, and then that error is the outcome of the call.
\<close>

theorem invalidated_session_call:
  assumes "consoleMethod J ocv name = Some f" and "\<not> targetAlive w"
  shows "f args now w =
           (case forwardingStep J (capturedConsole ocv) name args (runtime w) of
              (Inl e, rt) \<Rightarrow>
                (Inl e, w\<lparr>runtime := rt, movedFrom := insert name (movedFrom w)\<rparr>)
            | (Inr _, rt) \<Rightarrow>
                (Inr JSUndefined, w\<lparr>runtime := rt, movedFrom := insert name (movedFrom w)\<rparr>))
       \<and> delegateMessages (snd (f args now w)) = delegateMessages w
       \<and> consoleState (snd (f args now w)) = consoleState w
       \<and> executorTasks (snd (f args now w)) = executorTasks w
       \<and> jsThreadReleases (snd (f args now w)) = jsThreadReleases w"
proof -
  from consoleMethod_SomeD [OF assms(1)] obtain body
    where f: "f = forwardToOriginalConsole J (capturedConsole ocv) name (bodyHostFunction J name body)"
    by blast
  have e: "f args now w =
           (case forwardingStep J (capturedConsole ocv) name args (runtime w) of
              (Inl e, rt) \<Rightarrow>
                (Inl e, w\<lparr>runtime := rt, movedFrom := insert name (movedFrom w)\<rparr>)
            | (Inr _, rt) \<Rightarrow>
                (Inr JSUndefined, w\<lparr>runtime := rt, movedFrom := insert name (movedFrom w)\<rparr>))"
    by (simp add: f forwardToOriginalConsole_eq bodyHostFunction_dead [OF assms(2)]
          split: prod.splits sum.splits)
  show ?thesis
    by (rule conjI [OF e]) (simp add: e split: prod.splits sum.splits)
qed

theorem invalidated_session_call_witness:
  "callConsole sampleJsi (JSObject 1) ''log'' [JSString ''a''] 7 (sampleWorld\<lparr>targetAlive := False\<rparr>) =
     Some (Inr JSUndefined,
           sampleWorld\<lparr>runtime := [(10, 1, [JSString ''a''])], targetAlive := False,
             movedFrom := {''log''}\<rparr>)"
proof -
  have m: "consoleMethod sampleJsi (JSObject 1) ''log'' =
      Some (forwardToOriginalConsole sampleJsi (Some 1) ''log'' (bodyHostFunction sampleJsi ''log'' (forwarding_body kLog)))"
    by (simp add: consoleMethod_eq installedBody_def kForwardingConsoleMethods_def capturedConsole_def)
  have d: "\<not> targetAlive (sampleWorld\<lparr>targetAlive := False\<rparr>)" by simp
  from invalidated_session_call [OF m d, of "[JSString ''a'']" 7]
  show ?thesis
    by (simp add: sample_eval)
qed

text \<open>
  The claim of C8 that such a call never raises fails when the original method throws.
\<close>

theorem invalidated_session_counterexample:
  "callConsole sampleJsi (JSObject 1) ''warn'' [JSString ''x''] 7 (sampleWorld\<lparr>targetAlive := False\<rparr>) =
     Some (Inl (JSError (JSString ''boom'')),
           sampleWorld\<lparr>runtime := [(11, 1, [JSString ''x''])], targetAlive := False,
             movedFrom := {''warn''}\<rparr>)"
  by (simp add: sample_eval)

section \<open>The return value\<close>

text \<open>
  Claim C10, as the code has it. An installed method that returns, returns \<open>undefined\<close>,
  whatever the arguments, the messages and the original method's return value. It
  returns whenever, on a live session, the closure still holds its body and the string
  conversion of the label does not throw (which matters for count, countReset, time,
  timeEnd and timeLog), and the forwarding step does not throw.
\<close>

theorem returns_undefined_or_raises:
  assumes "consoleMethod J ocv name = Some f"
  shows "(\<forall>v. fst (f args now w) = Inr v \<longrightarrow> v = JSUndefined)
       \<and> ((targetAlive w \<longrightarrow> bodyHeld J name w) \<and>
           (targetAlive w \<and> name \<in> {''count'', ''countReset'', ''time'', ''timeEnd'', ''timeLog''}
              \<longrightarrow> \<not> isl (fst (resolve_label J args (runtime w)))) \<and>
           (\<forall>rt. \<not> isl (fst (forwardingStep J (capturedConsole ocv) name args rt)))
           \<longrightarrow> fst (f args now w) = Inr JSUndefined)"
proof (intro conjI allI impI)
  from consoleMethod_SomeD [OF assms] obtain body where b: "installedBody J name = Some body"
    and f: "f = forwardToOriginalConsole J (capturedConsole ocv) name (bodyHostFunction J name body)"
    by blast
  {
    fix v
    assume "fst (f args now w) = Inr v"
    then show "v = JSUndefined"
      unfolding f by (auto dest!: forward_result bodyHostFunction_result)
  }
  assume c: "(targetAlive w \<longrightarrow> bodyHeld J name w) \<and>
           (targetAlive w \<and> name \<in> {''count'', ''countReset'', ''time'', ''timeEnd'', ''timeLog''}
              \<longrightarrow> \<not> isl (fst (resolve_label J args (runtime w)))) \<and>
           (\<forall>rt. \<not> isl (fst (forwardingStep J (capturedConsole ocv) name args rt)))"
  have "\<not> isl (fst (bodyHostFunction J name body args now w))"
    using c body_raises_only_on_label [OF b, of args now w]
    by (auto simp: bodyHostFunction_isl [OF b])
  with c have "\<not> isl (fst (f args now w))"
    by (simp add: f forward_isl)
  then obtain v where v: "fst (f args now w) = Inr v"
    by (cases "fst (f args now w)") simp_all
  then have "v = JSUndefined"
    unfolding f by (auto dest!: forward_result bodyHostFunction_result)
  with v show "fst (f args now w) = Inr JSUndefined" by simp
qed

theorem returns_undefined_or_raises_witness:
  "callConsole sampleJsi (JSObject 1) ''log'' [] 7 sampleWorld =
     Some (Inr JSUndefined,
           sampleWorld\<lparr>runtime := [(10, 1, [])],
             delegateMessages := [\<lparr>msgTimestamp = 7, msgType = kLog, msgArgs = []\<rparr>],
             executorTasks := 1, movedFrom := {''log''}\<rparr>)"
proof -
  have m: "consoleMethod sampleJsi (JSObject 1) ''log'' =
      Some (forwardToOriginalConsole sampleJsi (Some 1) ''log'' (bodyHostFunction sampleJsi ''log'' (forwarding_body kLog)))"
    by (simp add: consoleMethod_eq installedBody_def kForwardingConsoleMethods_def capturedConsole_def)
  from returns_undefined_or_raises [OF m, of "[]" 7 sampleWorld]
  show ?thesis
    by (simp add: sample_eval)
qed

text \<open>
  The claim of C10 that every invocation returns \<open>undefined\<close> fails on a label whose
  string conversion throws.
\<close>

theorem coercion_error_counterexample:
  "callConsole sampleJsi JSNull ''time'' [JSObject 3] 7 sampleWorld =
     Some (Inl (JSError (JSString ''TypeError'')),
           sampleWorld\<lparr>jsThreadReleases := 1, movedFrom := {''time''}\<rparr>)"
  by (simp add: sample_eval)

section \<open>The hand-off of the strong reference\<close>

text \<open>
  When the body returns, the strong reference goes to the executor in a task; when the
  body throws, it does not, and is dropped on the JS thread.
\<close>

lemma handoff_on_return:
  assumes "installedBody J name = Some body" and "targetAlive w" and "bodyHeld J name w"
    and "body args now w = (Inr (), w1)"
  shows "bodyHostFunction J name body args now w =
           (Inr JSUndefined,
            w1\<lparr>movedFrom := insert name (movedFrom w), executorTasks := executorTasks w1 + 1\<rparr>)"
  using assms(2-) by (simp add: bodyHostFunction_eq [OF assms(1)])

lemma no_handoff_on_throw:
  assumes "installedBody J name = Some body" and "targetAlive w" and "bodyHeld J name w"
    and "body args now w = (Inl e, w1)"
  shows "bodyHostFunction J name body args now w =
           (Inl e,
            w1\<lparr>movedFrom := insert name (movedFrom w), jsThreadReleases := jsThreadReleases w1 + 1\<rparr>)"
  using assms(2-) by (simp add: bodyHostFunction_eq [OF assms(1)])

text \<open>
  Claim C9 asks that on every call that locks the target the strong reference is handed
  to the owner's executor after the delegate was used. On a live session, \<open>count\<close> with
  an object whose string conversion throws leaves the executor without a task, and the
  reference is dropped on the JS thread.
\<close>

theorem handoff_skipped_when_body_throws:
  "callConsole sampleJsi JSNull ''count'' [JSObject 3] 7 sampleWorld =
     Some (Inl (JSError (JSString ''TypeError'')),
           sampleWorld\<lparr>executorTasks := 0, jsThreadReleases := 1, movedFrom := {''count''}\<rparr>)"
  by (simp add: sample_eval)

section \<open>A closure that was emptied\<close>

text \<open>
  Where a \<open>std::function\<close> that was moved from is empty, the first call of a method on a
  live session runs its body and every later one throws \<open>std::bad_function_call\<close>:
  nothing reaches the delegate, the state is as it was, and the original console is not
  called.
\<close>

lemma emptied_closure_call:
  assumes "consoleMethod J ocv name = Some f" and "targetAlive w"
    and "name \<in> movedFrom w" and "\<not> moved_from_holds_target J"
  shows "f args now w =
           (Inl bad_function_call, w\<lparr>jsThreadReleases := jsThreadReleases w + 1\<rparr>)"
proof -
  from consoleMethod_SomeD [OF assms(1)] obtain body where b: "installedBody J name = Some body"
    and f: "f = forwardToOriginalConsole J (capturedConsole ocv) name (bodyHostFunction J name body)"
    by blast
  from assms(3,4) have "\<not> bodyHeld J name w" and "insert name (movedFrom w) = movedFrom w"
    by (auto simp: bodyHeld_def)
  with assms(2) show ?thesis
    by (simp add: f forwardToOriginalConsole_eq bodyHostFunction_eq [OF b])
qed

lemma second_call_on_emptied_closure:
  "delegateMessages
     (runCalls (consoleMethod (sampleJsi\<lparr>moved_from_holds_target := False\<rparr>) JSNull)
        [(''log'', [JSString ''a''], 1), (''log'', [JSString ''b''], 2)] sampleWorld) =
     [\<lparr>msgTimestamp = 1, msgType = kLog, msgArgs = [JSString ''a'']\<rparr>]"
  by (simp add: consoleMethod_eq installedBody_def kForwardingConsoleMethods_def
      forwardToOriginalConsole_eq forwardingStep_def capturedConsole_def bodyHostFunction_def
      delegateExecutorSync_def forwarding_body_def emplace_args_eq sampleJsi_def sampleWorld_def
      addConsoleMessage_def Let_def)

text \<open>
  Claim C3 asks that \<open>time(L)\<close> and then \<open>timeEnd(L)\<close> report the elapsed time and remove
  the timer, so that a second \<open>timeEnd(L)\<close> emits the Warning \<open>Timer 'L' does not exist\<close>.
  On a live session, where a function that was moved from is empty, the script
  \<open>time("a")\<close> at 100 ms, \<open>timeEnd("a")\<close> at 150 ms, \<open>timeEnd("a")\<close> leaves the delegate with the
  TimeEnd message of the first \<open>timeEnd\<close> and no Warning: the second \<open>timeEnd\<close> throws
  \<open>std::bad_function_call\<close>.
\<close>

theorem second_timeEnd_throws:
  "delegateMessages
     (runCalls (consoleMethod sampleEmptyingJsi JSNull)
        [(''time'', [JSString ''a''], 0x4059000000000000),
         (''timeEnd'', [JSString ''a''], 0x4062C00000000000),
         (''timeEnd'', [JSString ''a''], 0x4062C00000000000)] sampleWorld) =
     [\<lparr>msgTimestamp = 0x4062C00000000000, msgType = kTimeEnd,
       msgArgs = [JSString ''a: 50.000000 ms'']\<rparr>]
   \<and> map_option fst
       (callConsole sampleEmptyingJsi JSNull ''timeEnd'' [JSString ''a''] 0x4062C00000000000
          (runCalls (consoleMethod sampleEmptyingJsi JSNull)
             [(''time'', [JSString ''a''], 0x4059000000000000),
              (''timeEnd'', [JSString ''a''], 0x4062C00000000000)] sampleWorld)) =
     Some (Inl bad_function_call)"
  by (simp add: consoleMethod_eq sample_eval sampleEmptyingJsi_def)

text \<open>
  Claim C5 asks that \<open>time\<close> on a label that has an entry emits the Warning
  \<open>Timer 'label' already exists\<close>, and that repeated \<open>timeLog\<close> calls all report the time
  since the one start. On a live session, where a function that was moved from is
  empty: after \<open>time("a")\<close>, a second \<open>time("a")\<close> throws \<open>std::bad_function_call\<close> and the
  delegate receives no Warning; after \<open>time("a")\<close> and \<open>timeLog("a")\<close>, a second \<open>timeLog("a")\<close>
  throws it too, and the delegate has the report of the first \<open>timeLog\<close> only.
\<close>

theorem second_time_and_timeLog_throw:
  "delegateMessages
     (runCalls (consoleMethod sampleEmptyingJsi JSNull)
        [(''time'', [JSString ''a''], 0x4059000000000000),
         (''time'', [JSString ''a''], 0x4062C00000000000)] sampleWorld) = []
   \<and> map_option fst
       (callConsole sampleEmptyingJsi JSNull ''time'' [JSString ''a''] 0x4062C00000000000
          (runCalls (consoleMethod sampleEmptyingJsi JSNull)
             [(''time'', [JSString ''a''], 0x4059000000000000)] sampleWorld)) =
     Some (Inl bad_function_call)
   \<and> delegateMessages
     (runCalls (consoleMethod sampleEmptyingJsi JSNull)
        [(''time'', [JSString ''a''], 0x4059000000000000),
         (''timeLog'', [JSString ''a''], 0x4062C00000000000),
         (''timeLog'', [JSString ''a''], 0x4062C00000000000)] sampleWorld) =
     [\<lparr>msgTimestamp = 0x4062C00000000000, msgType = kLog,
       msgArgs = [JSString ''a: 50.000000 ms'']\<rparr>]
   \<and> map_option fst
       (callConsole sampleEmptyingJsi JSNull ''timeLog'' [JSString ''a''] 0x4062C00000000000
          (runCalls (consoleMethod sampleEmptyingJsi JSNull)
             [(''time'', [JSString ''a''], 0x4059000000000000),
              (''timeLog'', [JSString ''a''], 0x4062C00000000000)] sampleWorld)) =
     Some (Inl bad_function_call)"
  by (simp add: consoleMethod_eq sample_eval sampleEmptyingJsi_def)

end
